theory Spec2Isabelle
  imports Main "HOL-Library.AList"
begin

section \<open>JavaScript values and JSON\<close>

text \<open>
  The providers move untyped JavaScript values around: a \<open>Page\<close> or a \<open>Workspace\<close> is an
  object at run time, and what \<open>getItem\<close>, \<open>JSON.parse\<close> or \<open>response.data\<close> hand back is
  whatever was stored, whatever the TypeScript annotation says. So the embedding works on a
  datatype of run-time values. Numbers are integers (no claim is about floating point). A
  \<open>Date\<close> carries the ISO-8601 form of its instant. Objects are association lists in
  property order; looking a property up takes its first entry. (JavaScript enumerates
  properties whose names are array indices before the others; pages, workspaces and the
  keys \<open>workspace_<id>\<close>, \<open>page_<id>\<close> of an export have none.)
\<close>

datatype jsval =
    JUndefined
  | JNull
  | JBool bool
  | JNum int
  | JStr string
  | JDate string
  | JArr "jsval list"
  | JObj "(string \<times> jsval) list"

text \<open>
  A JSON document, as \<open>JSON.stringify\<close> writes it and \<open>JSON.parse\<close> reads it. The text
  itself (white space, the two-space indentation of \<open>JSON.stringify(v, null, 2)\<close>) is not
  modelled: a file or a response body holds either a document or text that is no JSON.
\<close>

datatype json =
    TNull
  | TBool bool
  | TNum int
  | TStr string
  | TArr "json list"
  | TObj "(string \<times> json) list"

datatype body = JsonText json | OtherText string

text \<open>An exception: the \<open>name\<close> and the \<open>message\<close> of the thrown \<open>Error\<close>.\<close>

datatype error = Err (name: string) (message: string)

definition new_Error :: "string \<Rightarrow> error" where
  "new_Error msg = Err ''Error'' msg"

definition TypeError :: error where
  "TypeError = Err ''TypeError'' ''not an object, a function or an iterable''"

definition SyntaxError :: error where
  "SyntaxError = Err ''SyntaxError'' ''Unexpected token in JSON''"

text \<open>
  \<open>JSON.stringify\<close>: a \<open>Date\<close> is written as its ISO string (\<open>toJSON\<close>), a property
  whose value is \<open>undefined\<close> is left out, \<open>undefined\<close> inside an array is written \<open>null\<close>,
  and \<open>undefined\<close> itself has no document.
\<close>

fun JSON_stringify :: "jsval \<Rightarrow> json option"
  and stringify_elems :: "jsval list \<Rightarrow> json list"
  and stringify_props :: "(string \<times> jsval) list \<Rightarrow> (string \<times> json) list" where
  "JSON_stringify JUndefined = None"
| "JSON_stringify JNull = Some TNull"
| "JSON_stringify (JBool b) = Some (TBool b)"
| "JSON_stringify (JNum n) = Some (TNum n)"
| "JSON_stringify (JStr s) = Some (TStr s)"
| "JSON_stringify (JDate d) = Some (TStr d)"
| "JSON_stringify (JArr xs) = Some (TArr (stringify_elems xs))"
| "JSON_stringify (JObj kvs) = Some (TObj (stringify_props kvs))"
| "stringify_elems [] = []"
| "stringify_elems (x # xs) =
     (case JSON_stringify x of None \<Rightarrow> TNull | Some j \<Rightarrow> j) # stringify_elems xs"
| "stringify_props [] = []"
| "stringify_props (kv # kvs) =
     (case JSON_stringify (snd kv) of
        None \<Rightarrow> stringify_props kvs
      | Some j \<Rightarrow> (fst kv, j) # stringify_props kvs)"

fun parse_json :: "json \<Rightarrow> jsval"
  and parse_elems :: "json list \<Rightarrow> jsval list"
  and parse_props :: "(string \<times> json) list \<Rightarrow> (string \<times> jsval) list" where
  "parse_json TNull = JNull"
| "parse_json (TBool b) = JBool b"
| "parse_json (TNum n) = JNum n"
| "parse_json (TStr s) = JStr s"
| "parse_json (TArr xs) = JArr (parse_elems xs)"
| "parse_json (TObj kvs) = JObj (parse_props kvs)"
| "parse_elems [] = []"
| "parse_elems (x # xs) = parse_json x # parse_elems xs"
| "parse_props [] = []"
| "parse_props (kv # kvs) = (fst kv, parse_json (snd kv)) # parse_props kvs"

text \<open>\<open>JSON.parse(text)\<close> throws a \<open>SyntaxError\<close> on text that is no JSON.\<close>

fun JSON_parse :: "body \<Rightarrow> error + jsval" where
  "JSON_parse (JsonText j) = Inr (parse_json j)"
| "JSON_parse (OtherText s) = Inl SyntaxError"

subsection \<open>The characters of a string, read as JSON\<close>

text \<open>
  \<open>JSON.parse(s)\<close> on the characters of a string value \<open>s\<close>: the text of a document,
  white space around its tokens, or no JSON. A number with a fraction or an exponent has
  no document here, numbers being integers, and a character is one byte, so that an escaped
  code unit beyond \<open>00ff\<close> has none either. A member that repeats a name replaces the earlier
  value, as in the object \<open>JSON.parse\<close> builds. The counter of \<open>parse_value\<close> bounds the
  calls below one call; twice the length of the text is more than they need, since of two
  calls in a row one has read a character.
\<close>

definition is_ws :: "char \<Rightarrow> bool" where
  "is_ws c = (c = CHR '' '' \<or> c = CHR 0x09 \<or> c = CHR 0x0A \<or> c = CHR 0x0D)"

definition skip_ws :: "string \<Rightarrow> string" where
  "skip_ws s = dropWhile is_ws s"

definition is_digit :: "char \<Rightarrow> bool" where
  "is_digit c = (48 \<le> (of_char c :: nat) \<and> (of_char c :: nat) \<le> 57)"

definition digits_value :: "string \<Rightarrow> nat" where
  "digits_value ds = foldl (\<lambda>n c. 10 * n + (of_char c - 48)) 0 ds"

definition parse_number :: "string \<Rightarrow> (json \<times> string) option" where
  "parse_number s =
     (let negative = (s \<noteq> [] \<and> hd s = CHR ''-'');
          t = (if negative then tl s else s);
          ds = takeWhile is_digit t;
          rest = dropWhile is_digit t
      in if ds = [] \<or> (hd ds = CHR ''0'' \<and> 1 < length ds) then None
         else if rest \<noteq> [] \<and> hd rest \<in> {CHR ''.'', CHR ''e'', CHR ''E''} then None
         else Some (TNum (if negative then - int (digits_value ds) else int (digits_value ds)), rest))"

definition hex_value :: "char \<Rightarrow> nat option" where
  "hex_value c =
     (let n = (of_char c :: nat)
      in if 48 \<le> n \<and> n \<le> 57 then Some (n - 48)
         else if 65 \<le> n \<and> n \<le> 70 then Some (n - 55)
         else if 97 \<le> n \<and> n \<le> 102 then Some (n - 87)
         else None)"

definition escaped :: "char \<Rightarrow> char option" where
  "escaped e =
     (if e = CHR 0x22 \<or> e = CHR 0x5C \<or> e = CHR ''/'' then Some e
      else if e = CHR ''b'' then Some (CHR 0x08)
      else if e = CHR ''f'' then Some (CHR 0x0C)
      else if e = CHR ''n'' then Some (CHR 0x0A)
      else if e = CHR ''r'' then Some (CHR 0x0D)
      else if e = CHR ''t'' then Some (CHR 0x09)
      else None)"

definition code_unit :: "char \<Rightarrow> char \<Rightarrow> char \<Rightarrow> char \<Rightarrow> char option" where
  "code_unit a b c d =
     (case (hex_value a, hex_value b, hex_value c, hex_value d) of
        (Some h3, Some h2, Some h1, Some h0) \<Rightarrow>
          if h3 = 0 \<and> h2 = 0 then Some (char_of (16 * h1 + h0)) else None
      | _ \<Rightarrow> None)"

definition cons_char :: "char \<Rightarrow> (string \<times> string) option \<Rightarrow> (string \<times> string) option" where
  "cons_char c r = (case r of None \<Rightarrow> None | Some (str, rest) \<Rightarrow> Some (c # str, rest))"

fun parse_chars :: "string \<Rightarrow> (string \<times> string) option" where
  "parse_chars [] = None"
| "parse_chars (c # cs) =
     (if c = CHR 0x22 then Some ([], cs)
      else if c = CHR 0x5C then
        (case cs of
           [] \<Rightarrow> None
         | e # r \<Rightarrow>
             if e = CHR ''u'' then
               (case r of
                  a # b # c' # d # r' \<Rightarrow>
                    (case code_unit a b c' d of
                       None \<Rightarrow> None
                     | Some x \<Rightarrow> cons_char x (parse_chars r'))
                | _ \<Rightarrow> None)
             else (case escaped e of
                     None \<Rightarrow> None
                   | Some x \<Rightarrow> cons_char x (parse_chars r)))
      else if (of_char c :: nat) < 32 then None
      else cons_char c (parse_chars cs))"

fun parse_value :: "nat \<Rightarrow> string \<Rightarrow> (json \<times> string) option"
  and parse_elements :: "nat \<Rightarrow> string \<Rightarrow> (json list \<times> string) option"
  and parse_members :: "nat \<Rightarrow> string \<Rightarrow> (string \<times> json) list \<Rightarrow> ((string \<times> json) list \<times> string) option" where
  "parse_value 0 s = None"
| "parse_value (Suc n) s =
     (case skip_ws s of
        [] \<Rightarrow> None
      | c # cs \<Rightarrow>
          if c = CHR ''['' then
            (case skip_ws cs of
               [] \<Rightarrow> None
             | d # ds \<Rightarrow>
                 if d = CHR '']'' then Some (TArr [], ds)
                 else (case parse_elements n cs of
                         None \<Rightarrow> None
                       | Some (vs, rest) \<Rightarrow> Some (TArr vs, rest)))
          else if c = CHR ''{'' then
            (case skip_ws cs of
               [] \<Rightarrow> None
             | d # ds \<Rightarrow>
                 if d = CHR ''}'' then Some (TObj [], ds)
                 else (case parse_members n cs [] of
                         None \<Rightarrow> None
                       | Some (kvs, rest) \<Rightarrow> Some (TObj kvs, rest)))
          else if c = CHR 0x22 then
            (case parse_chars cs of
               None \<Rightarrow> None
             | Some (str, rest) \<Rightarrow> Some (TStr str, rest))
          else if take 4 (c # cs) = ''null'' then Some (TNull, drop 4 (c # cs))
          else if take 4 (c # cs) = ''true'' then Some (TBool True, drop 4 (c # cs))
          else if take 5 (c # cs) = ''false'' then Some (TBool False, drop 5 (c # cs))
          else parse_number (c # cs))"
| "parse_elements 0 s = None"
| "parse_elements (Suc n) s =
     (case parse_value n s of
        None \<Rightarrow> None
      | Some (v, rest) \<Rightarrow>
          (case skip_ws rest of
             [] \<Rightarrow> None
           | c # cs \<Rightarrow>
               if c = CHR '','' then
                 (case parse_elements n cs of
                    None \<Rightarrow> None
                  | Some (vs, rest') \<Rightarrow> Some (v # vs, rest'))
               else if c = CHR '']'' then Some ([v], cs)
               else None))"
| "parse_members 0 s acc = None"
| "parse_members (Suc n) s acc =
     (case skip_ws s of
        [] \<Rightarrow> None
      | q # cs \<Rightarrow>
          if q \<noteq> CHR 0x22 then None
          else (case parse_chars cs of
                  None \<Rightarrow> None
                | Some (k, rest) \<Rightarrow>
                    (case skip_ws rest of
                       [] \<Rightarrow> None
                     | c # cs' \<Rightarrow>
                         if c \<noteq> CHR '':'' then None
                         else (case parse_value n cs' of
                                 None \<Rightarrow> None
                               | Some (v, rest') \<Rightarrow>
                                   (case skip_ws rest' of
                                      [] \<Rightarrow> None
                                    | d # ds \<Rightarrow>
                                        if d = CHR '','' then parse_members n ds (AList.update k v acc)
                                        else if d = CHR ''}'' then Some (AList.update k v acc, ds)
                                        else None)))))"

definition parse_text :: "string \<Rightarrow> json option" where
  "parse_text s =
     (case parse_value (2 * length s + 2) s of
        None \<Rightarrow> None
      | Some (j, rest) \<Rightarrow> if skip_ws rest = [] then Some j else None)"

definition body_of_string :: "string \<Rightarrow> body" where
  "body_of_string s = (case parse_text s of None \<Rightarrow> OtherText s | Some j \<Rightarrow> JsonText j)"

text \<open>
  \<open>JSON.parse(JSON.stringify(v))\<close>, the value that comes back from a file or a server for
  a value \<open>v\<close> that has a document.
\<close>

definition json_image :: "jsval \<Rightarrow> jsval" where
  "json_image v = (case JSON_stringify v of None \<Rightarrow> JUndefined | Some j \<Rightarrow> parse_json j)"

subsection \<open>Operators of the language used by the providers\<close>

text \<open>Truthiness, as tested by \<open>if (workspace)\<close> and \<open>!config.localPath\<close>.\<close>

fun truthy :: "jsval \<Rightarrow> bool" where
  "truthy JUndefined = False"
| "truthy JNull = False"
| "truthy (JBool b) = b"
| "truthy (JNum n) = (n \<noteq> 0)"
| "truthy (JStr s) = (s \<noteq> [])"
| "truthy (JDate d) = True"
| "truthy (JArr xs) = True"
| "truthy (JObj kvs) = True"

text \<open>
  Property access \<open>v.k\<close> for the property names the providers read (\<open>id\<close>, \<open>pages\<close>,
  \<open>workspaces\<close>): a \<open>TypeError\<close> on \<open>null\<close> and \<open>undefined\<close>, the property of an object,
  \<open>undefined\<close> on everything else.
\<close>

fun get_prop :: "jsval \<Rightarrow> string \<Rightarrow> error + jsval" where
  "get_prop JUndefined k = Inl TypeError"
| "get_prop JNull k = Inl TypeError"
| "get_prop (JObj kvs) k = Inr (case map_of kvs k of None \<Rightarrow> JUndefined | Some v \<Rightarrow> v)"
| "get_prop v k = Inr JUndefined"

text \<open>Strict equality \<open>a === b\<close>: by value on primitives, by reference (so never between
  two separately built values) on objects, arrays and dates.\<close>

fun strict_eq :: "jsval \<Rightarrow> jsval \<Rightarrow> bool" where
  "strict_eq JUndefined JUndefined = True"
| "strict_eq JNull JNull = True"
| "strict_eq (JBool a) (JBool b) = (a = b)"
| "strict_eq (JNum a) (JNum b) = (a = b)"
| "strict_eq (JStr a) (JStr b) = (a = b)"
| "strict_eq a b = False"

text \<open>Decimal digits of a number, for template literals.\<close>

function dec_digits :: "nat \<Rightarrow> string" where
  "dec_digits n =
     (if n < 10 then [char_of (48 + n)]
      else dec_digits (n div 10) @ [char_of (48 + n mod 10)])"
  by pat_completeness auto
termination
  by (relation "measure (\<lambda>n. n)") auto

declare dec_digits.simps [simp del]

fun join_comma :: "string list \<Rightarrow> string" where
  "join_comma [] = []"
| "join_comma [s] = s"
| "join_comma (s # t # ss) = s @ '','' @ join_comma (t # ss)"

text \<open>
  String conversion, as a template literal \<open>`${v}`\<close> does it. \<open>Date.prototype.toString\<close>
  depends on the host's time zone; ids are declared \<open>string\<close> and every id that reaches a
  template literal is one or comes out of \<open>JSON.parse\<close>, which builds no \<open>Date\<close>; the
  ISO form stands for it here.
\<close>

fun to_string :: "jsval \<Rightarrow> string"
  and elem_strings :: "jsval list \<Rightarrow> string list" where
  "to_string JUndefined = ''undefined''"
| "to_string JNull = ''null''"
| "to_string (JBool b) = (if b then ''true'' else ''false'')"
| "to_string (JNum n) = (if n < 0 then ''-'' @ dec_digits (nat (- n)) else dec_digits (nat n))"
| "to_string (JStr s) = s"
| "to_string (JDate d) = d"
| "to_string (JArr xs) = join_comma (elem_strings xs)"
| "to_string (JObj kvs) = ''[object Object]''"
| "elem_strings [] = []"
| "elem_strings (x # xs) =
     (case x of JUndefined \<Rightarrow> [] | JNull \<Rightarrow> [] | _ \<Rightarrow> to_string x) # elem_strings xs"

text \<open>\<open>key.startsWith(prefix)\<close> and \<open>name.endsWith(suffix)\<close>.\<close>

definition startsWith :: "string \<Rightarrow> string \<Rightarrow> bool" where
  "startsWith s p = (take (length p) s = p)"

definition endsWith :: "string \<Rightarrow> string \<Rightarrow> bool" where
  "endsWith s p = (length p \<le> length s \<and> drop (length s - length p) s = p)"

text \<open>
  \<open>for (const x of v)\<close>: the elements of an array, the characters of a string, and a
  \<open>TypeError\<close> on what cannot be iterated.
\<close>

fun iterate :: "jsval \<Rightarrow> error + jsval list" where
  "iterate (JArr xs) = Inr xs"
| "iterate (JStr s) = Inr (map (\<lambda>c. JStr [c]) s)"
| "iterate v = Inl TypeError"

text \<open>
  \<open>Object.entries(v)\<close>: the properties of an object, the indexed elements of an array and
  the indexed characters of a string, nothing for a number or a boolean, a \<open>TypeError\<close> on
  \<open>null\<close> and \<open>undefined\<close>.
\<close>

definition index_keys :: "'a list \<Rightarrow> string list" where
  "index_keys xs = map dec_digits [0 ..< length xs]"

fun Object_entries :: "jsval \<Rightarrow> error + (string \<times> jsval) list" where
  "Object_entries JUndefined = Inl TypeError"
| "Object_entries JNull = Inl TypeError"
| "Object_entries (JObj kvs) = Inr kvs"
| "Object_entries (JArr xs) = Inr (zip (index_keys xs) xs)"
| "Object_entries (JStr s) = Inr (zip (index_keys s) (map (\<lambda>c. JStr [c]) s))"
| "Object_entries v = Inr []"

section \<open>Asynchronous operations that may throw\<close>

text \<open>
  Every method of the storage layer is an \<open>async\<close> function that is awaited at once, so a
  call is a state transformer that returns a value or throws: \<open>Inl e\<close> is the rejection
  with \<open>e\<close>, and the state it leaves behind is kept, since what a method has written
  before it throws stays written.
\<close>

type_synonym 'a result = "error + 'a"

type_synonym ('a, 's) action = "'s \<Rightarrow> 'a result \<times> 's"

definition ret :: "'a \<Rightarrow> ('a, 's) action" where
  "ret a s = (Inr a, s)"

definition throw :: "error \<Rightarrow> ('a, 's) action" where
  "throw e s = (Inl e, s)"

definition lift :: "'a result \<Rightarrow> ('a, 's) action" where
  "lift r s = (r, s)"

definition andThen :: "('a, 's) action \<Rightarrow> ('a \<Rightarrow> ('b, 's) action) \<Rightarrow> ('b, 's) action" where
  "andThen m f s = (case m s of (Inl e, s') \<Rightarrow> (Inl e, s') | (Inr a, s') \<Rightarrow> f a s')"

definition try_catch :: "('a, 's) action \<Rightarrow> (error \<Rightarrow> ('a, 's) action) \<Rightarrow> ('a, 's) action" where
  "try_catch m h s = (case m s of (Inl e, s') \<Rightarrow> h e s' | (Inr a, s') \<Rightarrow> (Inr a, s'))"

text \<open>A \<open>for\<close> loop whose body is awaited: it stops at the first exception.\<close>

fun for_each :: "('a \<Rightarrow> (unit, 's) action) \<Rightarrow> 'a list \<Rightarrow> (unit, 's) action" where
  "for_each f [] = ret ()"
| "for_each f (x # xs) = andThen (f x) (\<lambda>_. for_each f xs)"

text \<open>\<open>`${error}`\<close> and \<open>error instanceof Error ? error.message : 'Unknown error'\<close>; every
  exception of the model is an \<open>Error\<close> (a \<open>DOMException\<close> is one too).\<close>

definition error_string :: "error \<Rightarrow> string" where
  "error_string e =
     (if name e = [] then message e
      else if message e = [] then name e
      else name e @ '': '' @ message e)"

section \<open>The environment\<close>

text \<open>
  What the providers talk to, as one state:
  \<^item> the \<open>localforage\<close> instance \<open>note-taking-app/workspace_data\<close>, which every
    \<open>BrowserStorage\<close> object opens (so all of them share it): its items, and whether the
    store is broken, in which case each of its calls rejects;
  \<^item> the File System Access API: whether \<open>window.showDirectoryPicker\<close> exists, whether the
    user grants the directory when asked, whether writing is permitted, and the entries of
    the directory the user picks;
  \<^item> the network: whether \<open>fetch\<close> reaches the server, whether the server labels a
    resource \<open>application/json\<close>, whether it labels so the answers that report an error,
    and the body of such an answer, the requests it refuses, and its resources by URL;
  \<^item> the clock, as \<open>new Date().toISOString()\<close> reads it.
\<close>

datatype fsentry = File body | Directory

record world =
  lf_items :: "(string \<times> jsval) list"
  lf_broken :: bool
  has_picker :: bool
  picker_grants :: bool
  fs_writable :: bool
  dir_entries :: "(string \<times> fsentry) list"
  online :: bool
  typed_json :: bool
  error_json :: bool
  error_body :: body
  refused :: "(string \<times> string) list"
  resources :: "(string \<times> body) list"
  clock :: string

subsection \<open>localforage\<close>

definition lf_error :: error where
  "lf_error = Err ''InvalidStateError'' ''No available storage method found.''"

definition lf_ready :: "(unit, world) action" where
  "lf_ready w = (if lf_broken w then (Inl lf_error, w) else (Inr (), w))"

text \<open>
  \<open>setItem\<close> stores a structured clone of the value; \<open>undefined\<close> is stored as \<open>null\<close>.
  \<open>keys()\<close> enumerates the items in the order of the list, which stands for the order of
  the store; what is proved about a listing that goes through \<open>keys()\<close> is stated for the
  set of its elements.
\<close>

definition lf_setItem :: "string \<Rightarrow> jsval \<Rightarrow> (unit, world) action" where
  "lf_setItem k v w =
     (if lf_broken w then (Inl lf_error, w)
      else (Inr (),
        w\<lparr>lf_items := AList.update k (case v of JUndefined \<Rightarrow> JNull | _ \<Rightarrow> v) (lf_items w)\<rparr>))"

text \<open>\<open>getItem\<close> resolves to \<open>null\<close> for a key that is not there.\<close>

definition lf_getItem :: "string \<Rightarrow> (jsval, world) action" where
  "lf_getItem k w =
     (if lf_broken w then (Inl lf_error, w)
      else (Inr (case map_of (lf_items w) k of None \<Rightarrow> JNull | Some v \<Rightarrow> v), w))"

definition lf_removeItem :: "string \<Rightarrow> (unit, world) action" where
  "lf_removeItem k w =
     (if lf_broken w then (Inl lf_error, w)
      else (Inr (), w\<lparr>lf_items := AList.delete k (lf_items w)\<rparr>))"

definition lf_keys :: "(string list, world) action" where
  "lf_keys w = (if lf_broken w then (Inl lf_error, w) else (Inr (map fst (lf_items w)), w))"

definition lf_clear :: "(unit, world) action" where
  "lf_clear w = (if lf_broken w then (Inl lf_error, w) else (Inr (), w\<lparr>lf_items := []\<rparr>))"

section \<open>BrowserStorage\<close>

definition BrowserStorage_isAvailable :: "(bool, world) action" where
  "BrowserStorage_isAvailable =
     try_catch (andThen lf_ready (\<lambda>_. ret True)) (\<lambda>_. ret False)"

definition BrowserStorage_testConnection :: "(bool, world) action" where
  "BrowserStorage_testConnection = BrowserStorage_isAvailable"

definition BrowserStorage_saveWorkspace :: "jsval \<Rightarrow> (unit, world) action" where
  "BrowserStorage_saveWorkspace workspace =
     try_catch
       (andThen (lift (get_prop workspace ''id'')) (\<lambda>i.
          lf_setItem (''workspace_'' @ to_string i) workspace))
       (\<lambda>error. throw (new_Error (''Failed to save workspace: '' @ error_string error)))"

definition BrowserStorage_getWorkspace :: "string \<Rightarrow> (jsval, world) action" where
  "BrowserStorage_getWorkspace workspaceId =
     try_catch (lf_getItem (''workspace_'' @ workspaceId)) (\<lambda>error. ret JNull)"

definition BrowserStorage_savePage :: "jsval \<Rightarrow> (unit, world) action" where
  "BrowserStorage_savePage page =
     try_catch
       (andThen (lift (get_prop page ''id'')) (\<lambda>i.
          lf_setItem (''page_'' @ to_string i) page))
       (\<lambda>error. throw (new_Error (''Failed to save page: '' @ error_string error)))"

definition BrowserStorage_getPage :: "string \<Rightarrow> (jsval, world) action" where
  "BrowserStorage_getPage pageId =
     try_catch (lf_getItem (''page_'' @ pageId)) (\<lambda>error. ret JNull)"

definition BrowserStorage_deletePage :: "string \<Rightarrow> (unit, world) action" where
  "BrowserStorage_deletePage pageId =
     try_catch (lf_removeItem (''page_'' @ pageId))
       (\<lambda>error. throw (new_Error (''Failed to delete page: '' @ error_string error)))"

text \<open>The loop of \<open>getAllWorkspaces\<close>: load each key, keep the truthy values.\<close>

fun load_workspaces :: "string list \<Rightarrow> (jsval list, world) action" where
  "load_workspaces [] = ret []"
| "load_workspaces (key # keys) =
     andThen (lf_getItem key) (\<lambda>workspace.
     andThen (load_workspaces keys) (\<lambda>workspaces.
       ret (if truthy workspace then workspace # workspaces else workspaces)))"

definition BrowserStorage_getAllWorkspaces :: "(jsval list, world) action" where
  "BrowserStorage_getAllWorkspaces =
     try_catch
       (andThen lf_keys (\<lambda>keys.
          load_workspaces (filter (\<lambda>key. startsWith key ''workspace_'') keys)))
       (\<lambda>error. ret [])"

definition BrowserStorage_clearAll :: "(unit, world) action" where
  "BrowserStorage_clearAll =
     try_catch lf_clear
       (\<lambda>error. throw (new_Error (''Failed to clear storage: '' @ error_string error)))"

text \<open>The loop of \<open>exportData\<close>: \<open>data[key] = item\<close> for each key.\<close>

fun load_items :: "string list \<Rightarrow> (string \<times> jsval) list \<Rightarrow> ((string \<times> jsval) list, world) action" where
  "load_items [] data = ret data"
| "load_items (key # keys) data =
     andThen (lf_getItem key) (\<lambda>item. load_items keys (AList.update key item data))"

text \<open>The string that \<open>JSON.stringify(data, null, 2)\<close> returns for an object or an array.\<close>

definition stringify_text :: "jsval \<Rightarrow> body result" where
  "stringify_text v = (case JSON_stringify v of None \<Rightarrow> Inl TypeError | Some j \<Rightarrow> Inr (JsonText j))"

definition BrowserStorage_exportData :: "(body, world) action" where
  "BrowserStorage_exportData =
     try_catch
       (andThen lf_keys (\<lambda>keys.
        andThen (load_items keys []) (\<lambda>data.
          lift (stringify_text (JObj data)))))
       (\<lambda>error. throw (new_Error (''Failed to export data: '' @ error_string error)))"

definition BrowserStorage_importData :: "body \<Rightarrow> (unit, world) action" where
  "BrowserStorage_importData jsonData =
     try_catch
       (andThen (lift (JSON_parse jsonData)) (\<lambda>data.
        andThen BrowserStorage_clearAll (\<lambda>_.
        andThen (lift (Object_entries data)) (\<lambda>entries.
          for_each (\<lambda>(key, v). lf_setItem key v) entries))))
       (\<lambda>error. throw (new_Error (''Failed to import data: '' @ error_string error)))"


subsection \<open>The File System Access API\<close>

definition NotFoundError :: error where
  "NotFoundError = Err ''NotFoundError'' ''A requested file or directory could not be found.''"

definition NotAllowedError :: error where
  "NotAllowedError = Err ''NotAllowedError'' ''The request is not allowed by the user agent.''"

definition AbortError :: error where
  "AbortError = Err ''AbortError'' ''The user aborted a request.''"

definition TypeMismatchError :: error where
  "TypeMismatchError = Err ''TypeMismatchError'' ''The path supplied exists, but was not an entry of requested type.''"

definition valid_file_name :: "string \<Rightarrow> bool" where
  "valid_file_name n = (n \<noteq> [] \<and> n \<noteq> ''.'' \<and> n \<noteq> ''..'' \<and> CHR ''/'' \<notin> set n)"

text \<open>\<open>window.showDirectoryPicker()\<close>: the handle of the directory, when the user grants it.\<close>

definition showDirectoryPicker :: "(unit, world) action" where
  "showDirectoryPicker w =
     (if \<not> has_picker w then (Inl TypeError, w)
      else if \<not> picker_grants w then (Inl AbortError, w)
      else (Inr (), w))"

text \<open>\<open>directoryHandle.getFileHandle(name, {create})\<close>; a file it creates is empty.\<close>

definition getFileHandle :: "string \<Rightarrow> bool \<Rightarrow> (unit, world) action" where
  "getFileHandle fileName create w =
     (if \<not> valid_file_name fileName then (Inl TypeError, w)
      else if create \<and> \<not> fs_writable w then (Inl NotAllowedError, w)
      else (case map_of (dir_entries w) fileName of
              Some (File text) \<Rightarrow> (Inr (), w)
            | Some Directory \<Rightarrow> (Inl TypeMismatchError, w)
            | None \<Rightarrow>
                if create
                then (Inr (), w\<lparr>dir_entries := dir_entries w @ [(fileName, File (OtherText []))]\<rparr>)
                else (Inl NotFoundError, w)))"

text \<open>\<open>createWritable()\<close>, \<open>write(text)\<close> and \<open>close()\<close> on the handle of a file.\<close>

definition write_file :: "string \<Rightarrow> body \<Rightarrow> (unit, world) action" where
  "write_file fileName text w =
     (if \<not> fs_writable w then (Inl NotAllowedError, w)
      else (Inr (), w\<lparr>dir_entries := AList.update fileName (File text) (dir_entries w)\<rparr>))"

text \<open>\<open>getFile()\<close> and \<open>text()\<close> on the handle of a file.\<close>

definition read_file :: "string \<Rightarrow> (body, world) action" where
  "read_file fileName w =
     (case map_of (dir_entries w) fileName of
        Some (File text) \<Rightarrow> (Inr text, w)
      | _ \<Rightarrow> (Inl NotFoundError, w))"

definition removeEntry :: "string \<Rightarrow> (unit, world) action" where
  "removeEntry fileName w =
     (if \<not> valid_file_name fileName then (Inl TypeError, w)
      else if \<not> fs_writable w then (Inl NotAllowedError, w)
      else (case map_of (dir_entries w) fileName of
              None \<Rightarrow> (Inl NotFoundError, w)
            | Some entry \<Rightarrow> (Inr (), w\<lparr>dir_entries := AList.delete fileName (dir_entries w)\<rparr>)))"

definition entries :: "((string \<times> fsentry) list, world) action" where
  "entries w = (Inr (dir_entries w), w)"

section \<open>LocalStorage\<close>

text \<open>
  A \<open>LocalStorage\<close> object: its \<open>basePath\<close> and whether \<open>directoryHandle\<close> is set (it is
  \<open>null\<close> at construction). Its methods run on the object together with the environment.
\<close>

record local_storage =
  basePath :: string
  directoryHandle :: bool

definition new_LocalStorage :: "string \<Rightarrow> local_storage" where
  "new_LocalStorage p = \<lparr>basePath = p, directoryHandle = False\<rparr>"

definition on_world :: "('a, world) action \<Rightarrow> ('a, 'p \<times> world) action" where
  "on_world m s = (case m (snd s) of (r, w') \<Rightarrow> (r, (fst s, w')))"

definition LocalStorage_isAvailable :: "(bool, local_storage \<times> world) action" where
  "LocalStorage_isAvailable s = (Inr (has_picker (snd s)), s)"

definition ensureDirectoryHandle :: "(unit, local_storage \<times> world) action" where
  "ensureDirectoryHandle s =
     (if \<not> directoryHandle (fst s)
      then andThen (on_world showDirectoryPicker)
             (\<lambda>_ s'. (Inr (), ((fst s')\<lparr>directoryHandle := True\<rparr>, snd s'))) s
      else (Inr (), s))"

definition LocalStorage_saveWorkspace :: "jsval \<Rightarrow> (unit, local_storage \<times> world) action" where
  "LocalStorage_saveWorkspace workspace =
     andThen ensureDirectoryHandle (\<lambda>_.
     andThen (lift (get_prop workspace ''id'')) (\<lambda>i.
       try_catch
         (andThen (on_world (getFileHandle (''workspace-'' @ to_string i @ ''.json'') True)) (\<lambda>_.
          andThen (lift (stringify_text workspace)) (\<lambda>text.
            on_world (write_file (''workspace-'' @ to_string i @ ''.json'') text))))
         (\<lambda>error. throw (new_Error (''Failed to save workspace: '' @ message error)))))"

definition LocalStorage_getWorkspace :: "string \<Rightarrow> (jsval, local_storage \<times> world) action" where
  "LocalStorage_getWorkspace workspaceId =
     andThen ensureDirectoryHandle (\<lambda>_.
       try_catch
         (andThen (on_world (getFileHandle (''workspace-'' @ workspaceId @ ''.json'') False)) (\<lambda>_.
          andThen (on_world (read_file (''workspace-'' @ workspaceId @ ''.json''))) (\<lambda>text.
            lift (JSON_parse text))))
         (\<lambda>error.
            if name error = ''NotFoundError'' then ret JNull
            else throw (new_Error (''Failed to get workspace: '' @ message error))))"

definition LocalStorage_savePage :: "jsval \<Rightarrow> (unit, local_storage \<times> world) action" where
  "LocalStorage_savePage page =
     andThen ensureDirectoryHandle (\<lambda>_.
     andThen (lift (get_prop page ''id'')) (\<lambda>i.
       try_catch
         (andThen (on_world (getFileHandle (''page-'' @ to_string i @ ''.json'') True)) (\<lambda>_.
          andThen (lift (stringify_text page)) (\<lambda>text.
            on_world (write_file (''page-'' @ to_string i @ ''.json'') text))))
         (\<lambda>error. throw (new_Error (''Failed to save page: '' @ message error)))))"

definition LocalStorage_getPage :: "string \<Rightarrow> (jsval, local_storage \<times> world) action" where
  "LocalStorage_getPage pageId =
     andThen ensureDirectoryHandle (\<lambda>_.
       try_catch
         (andThen (on_world (getFileHandle (''page-'' @ pageId @ ''.json'') False)) (\<lambda>_.
          andThen (on_world (read_file (''page-'' @ pageId @ ''.json''))) (\<lambda>text.
            lift (JSON_parse text))))
         (\<lambda>error.
            if name error = ''NotFoundError'' then ret JNull
            else throw (new_Error (''Failed to get page: '' @ message error))))"

definition LocalStorage_deletePage :: "string \<Rightarrow> (unit, local_storage \<times> world) action" where
  "LocalStorage_deletePage pageId =
     andThen ensureDirectoryHandle (\<lambda>_.
       try_catch
         (on_world (removeEntry (''page-'' @ pageId @ ''.json'')))
         (\<lambda>error.
            if name error = ''NotFoundError'' then ret ()
            else throw (new_Error (''Failed to delete page: '' @ message error))))"

text \<open>
  The loop over \<open>directoryHandle.entries()\<close> of \<open>getAllWorkspaces\<close> and \<open>exportData\<close>: the
  parsed text of every file whose name starts with the prefix and ends with \<open>.json\<close>.
\<close>

fun parse_files :: "string \<Rightarrow> (string \<times> fsentry) list \<Rightarrow> jsval list result" where
  "parse_files prefix [] = Inr []"
| "parse_files prefix (e # rest) =
     (case snd e of
        File text \<Rightarrow>
          if startsWith (fst e) prefix \<and> endsWith (fst e) ''.json''
          then (case JSON_parse text of
                  Inl err \<Rightarrow> Inl err
                | Inr v \<Rightarrow>
                    (case parse_files prefix rest of Inl err \<Rightarrow> Inl err | Inr vs \<Rightarrow> Inr (v # vs)))
          else parse_files prefix rest
      | Directory \<Rightarrow> parse_files prefix rest)"

definition LocalStorage_getAllWorkspaces :: "(jsval list, local_storage \<times> world) action" where
  "LocalStorage_getAllWorkspaces =
     andThen ensureDirectoryHandle (\<lambda>_.
       try_catch
         (andThen (on_world entries) (\<lambda>es. lift (parse_files ''workspace-'' es)))
         (\<lambda>error. throw (new_Error (''Failed to get workspaces: '' @ message error))))"

definition is_data_file :: "string \<times> fsentry \<Rightarrow> bool" where
  "is_data_file e =
     (case snd e of
        File text \<Rightarrow>
          (startsWith (fst e) ''workspace-'' \<or> startsWith (fst e) ''page-'') \<and> endsWith (fst e) ''.json''
      | Directory \<Rightarrow> False)"

definition LocalStorage_clearAll :: "(unit, local_storage \<times> world) action" where
  "LocalStorage_clearAll =
     andThen ensureDirectoryHandle (\<lambda>_.
       try_catch
         (andThen (on_world entries) (\<lambda>es.
            for_each (\<lambda>e. on_world (removeEntry (fst e))) (filter is_data_file es)))
         (\<lambda>error. throw (new_Error (''Failed to clear all data: '' @ message error))))"

definition LocalStorage_exportData :: "(body, local_storage \<times> world) action" where
  "LocalStorage_exportData =
     andThen LocalStorage_getAllWorkspaces (\<lambda>workspaces.
     andThen ensureDirectoryHandle (\<lambda>_.
     andThen
       (try_catch
          (andThen (on_world entries) (\<lambda>es. lift (parse_files ''page-'' es)))
          (\<lambda>error. throw (new_Error (''Failed to export data: '' @ message error))))
       (\<lambda>allPages s.
          lift (stringify_text (JObj [(''workspaces'', JArr workspaces), (''pages'', JArr allPages),
                  (''exportDate'', JStr (clock (snd s)))])) s)))"

definition LocalStorage_importData :: "body \<Rightarrow> (unit, local_storage \<times> world) action" where
  "LocalStorage_importData jsonData =
     try_catch
       (andThen (lift (JSON_parse jsonData)) (\<lambda>data.
        andThen (lift (get_prop data ''workspaces'')) (\<lambda>ws.
        andThen
          (if truthy ws
           then andThen (lift (iterate ws)) (for_each LocalStorage_saveWorkspace)
           else ret ())
          (\<lambda>_.
        andThen (lift (get_prop data ''pages'')) (\<lambda>ps.
          if truthy ps
          then andThen (lift (iterate ps)) (for_each LocalStorage_savePage)
          else ret ())))))
       (\<lambda>error. throw (new_Error (''Failed to import data: '' @ message error)))"

subsection \<open>The WebDAV server behind fetch\<close>

text \<open>
  \<open>fetch\<close> rejects when the network is down. A server that is reached answers 403 to
  the requests it refuses and otherwise serves its resources: \<open>GET\<close> answers 200 with the
  body or 404, \<open>PUT\<close> stores the body, \<open>DELETE\<close> removes a resource, or every resource
  below a collection, or answers 404, \<open>MKCOL\<close> and \<open>PROPFIND\<close> succeed. An answer that
  reports an error (403, 404, 400, 405) carries the error page of the server: its label and
  its body are the server's. Collections are not kept apart from their members, and
  credentials are not checked.
\<close>

datatype fetched = NetworkError string | Response nat bool body

definition is_ok :: "nat \<Rightarrow> bool" where
  "is_ok st = (200 \<le> st \<and> st \<le> 299)"

definition fetch :: "string \<Rightarrow> string \<Rightarrow> body option \<Rightarrow> world \<Rightarrow> fetched \<times> world" where
  "fetch method url content w =
     (if \<not> online w then (NetworkError ''Failed to fetch'', w)
      else if (method, url) \<in> set (refused w) then (Response 403 (error_json w) (error_body w), w)
      else if method = ''GET'' then
        (case map_of (resources w) url of
           Some b \<Rightarrow> (Response 200 (typed_json w) b, w)
         | None \<Rightarrow> (Response 404 (error_json w) (error_body w), w))
      else if method = ''PUT'' then
        (case content of
           Some b \<Rightarrow> (Response 201 False (OtherText []), w\<lparr>resources := AList.update url b (resources w)\<rparr>)
         | None \<Rightarrow> (Response 400 (error_json w) (error_body w), w))
      else if method = ''DELETE'' then
        (if url \<in> fst ` set (resources w)
         then (Response 204 False (OtherText []), w\<lparr>resources := AList.delete url (resources w)\<rparr>)
         else if url \<noteq> [] \<and> last url = CHR ''/'' \<and> (\<exists>r \<in> set (resources w). startsWith (fst r) url)
         then (Response 204 False (OtherText []),
                 w\<lparr>resources := filter (\<lambda>r. \<not> startsWith (fst r) url) (resources w)\<rparr>)
         else (Response 404 (error_json w) (error_body w), w))
      else if method = ''MKCOL'' then (Response 201 False (OtherText []), w)
      else if method = ''PROPFIND'' then (Response 207 False (OtherText ''<D:multistatus/>''), w)
      else (Response 405 (error_json w) (error_body w), w))"

section \<open>WebDAVStorage\<close>

record webdav_config =
  url :: string
  username :: string
  password :: string
  enabled :: bool
  lastSync :: "string option"

text \<open>\<open>response.data\<close>: the value \<open>response.json()\<close> built, or the text of the body.\<close>

datatype rdata = Parsed jsval | Text body

record webdav_response =
  ok :: bool
  status :: nat
  data :: "rdata option"
  error :: "string option"

text \<open>\<open>url.replace(/\/$/, '')\<close>\<close>

definition strip_slash :: "string \<Rightarrow> string" where
  "strip_slash u = (if u \<noteq> [] \<and> last u = CHR ''/'' then butlast u else u)"

text \<open>
  \<open>makeRequest\<close> never throws: a rejected \<open>fetch\<close>, and a body labelled JSON on which
  \<open>response.json()\<close> fails, give \<open>ok: false\<close> with status 0. The request headers (the
  credentials, \<open>Depth\<close>) play no part in the server above and are left out; \<open>btoa\<close> is
  taken to accept the credentials (it throws on characters beyond Latin-1).
\<close>

definition makeRequest ::
  "webdav_config \<Rightarrow> string \<Rightarrow> string \<Rightarrow> body option \<Rightarrow> (webdav_response, world) action" where
  "makeRequest config path method content w =
     (case fetch method (strip_slash (url config) @ path) content w of
        (NetworkError msg, w') \<Rightarrow>
          (Inr \<lparr>ok = False, status = 0, data = None, error = Some msg\<rparr>, w')
      | (Response st is_json b, w') \<Rightarrow>
          if is_json
          then (case b of
                  JsonText j \<Rightarrow>
                    (Inr \<lparr>ok = is_ok st, status = st, data = Some (Parsed (parse_json j)), error = None\<rparr>, w')
                | OtherText s \<Rightarrow>
                    (Inr \<lparr>ok = False, status = 0, data = None, error = Some (message SyntaxError)\<rparr>, w'))
          else (Inr \<lparr>ok = is_ok st, status = st, data = Some (Text b), error = None\<rparr>, w'))"

text \<open>
  \<open>typeof response.data === 'string' ? JSON.parse(response.data) : response.data\<close>. The
  text of a body that was not labelled JSON is parsed; so are the characters of the string
  that \<open>response.json()\<close> built from a document that is a single string.
\<close>

definition parse_data :: "rdata option \<Rightarrow> jsval result" where
  "parse_data d =
     (case d of
        None \<Rightarrow> Inr JUndefined
      | Some (Text b) \<Rightarrow> JSON_parse b
      | Some (Parsed v) \<Rightarrow> (case v of JStr s \<Rightarrow> JSON_parse (body_of_string s) | _ \<Rightarrow> Inr v))"

text \<open>\<open>response.error || 'Unknown error'\<close>\<close>

definition error_or_unknown :: "webdav_response \<Rightarrow> string" where
  "error_or_unknown response =
     (case error response of
        None \<Rightarrow> ''Unknown error''
      | Some e \<Rightarrow> if e = [] then ''Unknown error'' else e)"

definition WebDAVStorage_testConnection :: "webdav_config \<Rightarrow> (bool, world) action" where
  "WebDAVStorage_testConnection config =
     try_catch
       (andThen (makeRequest config ''/'' ''PROPFIND'' None) (\<lambda>response. ret (ok response)))
       (\<lambda>error. ret False)"

definition WebDAVStorage_isAvailable :: "webdav_config \<Rightarrow> (bool, world) action" where
  "WebDAVStorage_isAvailable config = WebDAVStorage_testConnection config"

definition WebDAVStorage_saveWorkspace :: "webdav_config \<Rightarrow> jsval \<Rightarrow> (unit, world) action" where
  "WebDAVStorage_saveWorkspace config workspace =
     andThen (lift (get_prop workspace ''id'')) (\<lambda>wid.
     andThen (lift (get_prop workspace ''name'')) (\<lambda>wname.
     andThen (lift (get_prop workspace ''pages'')) (\<lambda>wpages.
     andThen (lift (get_prop workspace ''currentPageId'')) (\<lambda>wcurrent w.
       (andThen (lift (stringify_text (JObj
            [(''id'', wid), (''name'', wname), (''pages'', wpages), (''currentPageId'', wcurrent),
             (''lastSync'', JStr (clock w))]))) (\<lambda>text.
        andThen (makeRequest config (''/workspace-'' @ to_string wid @ ''.json'') ''PUT'' (Some text))
          (\<lambda>response.
            if \<not> ok response
            then throw (new_Error (''Failed to save workspace: '' @ error_or_unknown response))
            else ret ()))) w))))"

definition WebDAVStorage_getWorkspace :: "webdav_config \<Rightarrow> string \<Rightarrow> (jsval, world) action" where
  "WebDAVStorage_getWorkspace config workspaceId =
     andThen (makeRequest config (''/workspace-'' @ workspaceId @ ''.json'') ''GET'' None) (\<lambda>response.
       if \<not> ok response
       then (if status response = 404 then ret JNull
             else throw (new_Error (''Failed to get workspace: '' @ error_or_unknown response)))
       else lift (parse_data (data response)))"

definition commonWorkspaceIds :: "string list" where
  "commonWorkspaceIds = [''default'', ''main'', ''primary'']"

text \<open>The loop of \<open>getAllWorkspaces\<close> over the ids it tries.\<close>

fun probe_workspaces :: "webdav_config \<Rightarrow> string list \<Rightarrow> (jsval list, world) action" where
  "probe_workspaces config [] = ret []"
| "probe_workspaces config (i # ids) =
     andThen (WebDAVStorage_getWorkspace config i) (\<lambda>workspace.
     andThen (probe_workspaces config ids) (\<lambda>workspaces.
       ret (if truthy workspace then workspace # workspaces else workspaces)))"

definition propfind_body :: body where
  "propfind_body = OtherText ''<D:propfind xmlns:D=\"DAV:\"><D:prop><D:displayname/><D:getlastmodified/><D:getcontentlength/><D:resourcetype/></D:prop></D:propfind>''"

definition WebDAVStorage_getAllWorkspaces :: "webdav_config \<Rightarrow> (jsval list, world) action" where
  "WebDAVStorage_getAllWorkspaces config =
     andThen (makeRequest config ''/'' ''PROPFIND'' (Some propfind_body)) (\<lambda>response.
       if \<not> ok response
       then throw (new_Error (''Failed to list files: '' @ error_or_unknown response))
       else probe_workspaces config commonWorkspaceIds)"

text \<open>\<open>ps.some(p => p.id === page.id)\<close> and \<open>workspaces.find(w => w.pages.some(...))\<close>.\<close>

fun pages_some :: "jsval list \<Rightarrow> jsval \<Rightarrow> bool result" where
  "pages_some [] page = Inr False"
| "pages_some (p # ps) page =
     (case get_prop p ''id'' of
        Inl e \<Rightarrow> Inl e
      | Inr pid \<Rightarrow>
          (case get_prop page ''id'' of
             Inl e \<Rightarrow> Inl e
           | Inr i \<Rightarrow> if strict_eq pid i then Inr True else pages_some ps page))"

fun find_workspace :: "jsval list \<Rightarrow> jsval \<Rightarrow> jsval result" where
  "find_workspace [] page = Inr JUndefined"
| "find_workspace (w # ws) page =
     (case get_prop w ''pages'' of
        Inl e \<Rightarrow> Inl e
      | Inr (JArr ps) \<Rightarrow>
          (case pages_some ps page of
             Inl e \<Rightarrow> Inl e
           | Inr found \<Rightarrow> if found then Inr w else find_workspace ws page)
      | Inr other \<Rightarrow> Inl TypeError)"

text \<open>The own properties that \<open>{...page}\<close> copies.\<close>

fun spread :: "jsval \<Rightarrow> (string \<times> jsval) list" where
  "spread (JObj kvs) = kvs"
| "spread (JArr xs) = zip (index_keys xs) xs"
| "spread (JStr s) = zip (index_keys s) (map (\<lambda>c. JStr [c]) s)"
| "spread v = []"

definition page_path :: "jsval \<Rightarrow> string \<Rightarrow> string" where
  "page_path workspace_id pageId =
     ''/pages/workspace-'' @ to_string workspace_id @ ''/page-'' @ pageId @ ''.json''"

definition WebDAVStorage_savePage :: "webdav_config \<Rightarrow> jsval \<Rightarrow> (unit, world) action" where
  "WebDAVStorage_savePage config page =
     andThen (WebDAVStorage_getAllWorkspaces config) (\<lambda>workspaces.
     andThen (lift (find_workspace workspaces page)) (\<lambda>workspace.
       if \<not> truthy workspace
       then andThen (lift (get_prop page ''id'')) (\<lambda>pid.
              throw (new_Error (''Workspace not found for page '' @ to_string pid)))
       else (\<lambda>w.
         (andThen (lift (get_prop workspace ''id'')) (\<lambda>wid.
          andThen (makeRequest config (''/pages/workspace-'' @ to_string wid @ ''/'') ''MKCOL'' None) (\<lambda>_.
          andThen (lift (get_prop page ''id'')) (\<lambda>pid.
          andThen (lift (stringify_text (JObj (AList.update ''lastSync'' (JStr (clock w)) (spread page)))))
            (\<lambda>text.
          andThen (makeRequest config (page_path wid (to_string pid)) ''PUT'' (Some text)) (\<lambda>response.
            if \<not> ok response
            then throw (new_Error (''Failed to save page: '' @ error_or_unknown response))
            else ret ())))))) w)))"

text \<open>The loop of \<open>getPage\<close>: the first workspace whose page resource answers.\<close>

fun probe_pages :: "webdav_config \<Rightarrow> string \<Rightarrow> jsval list \<Rightarrow> (jsval, world) action" where
  "probe_pages config pageId [] = ret JNull"
| "probe_pages config pageId (workspace # rest) =
     andThen (lift (get_prop workspace ''id'')) (\<lambda>wid.
     andThen (makeRequest config (page_path wid pageId) ''GET'' None) (\<lambda>response.
       if ok response then lift (parse_data (data response))
       else probe_pages config pageId rest))"

definition WebDAVStorage_getPage :: "webdav_config \<Rightarrow> string \<Rightarrow> (jsval, world) action" where
  "WebDAVStorage_getPage config pageId =
     andThen (WebDAVStorage_getAllWorkspaces config) (probe_pages config pageId)"

text \<open>The loop of \<open>deletePage\<close>, and the \<open>throw\<close> that follows it.\<close>

fun delete_pages :: "webdav_config \<Rightarrow> string \<Rightarrow> jsval list \<Rightarrow> (unit, world) action" where
  "delete_pages config pageId [] = throw (new_Error ''Failed to delete page: Page not found'')"
| "delete_pages config pageId (workspace # rest) =
     andThen (lift (get_prop workspace ''id'')) (\<lambda>wid.
     andThen (makeRequest config (page_path wid pageId) ''DELETE'' None) (\<lambda>response.
       if ok response then ret ()
       else delete_pages config pageId rest))"

definition WebDAVStorage_deletePage :: "webdav_config \<Rightarrow> string \<Rightarrow> (unit, world) action" where
  "WebDAVStorage_deletePage config pageId =
     andThen (WebDAVStorage_getAllWorkspaces config) (delete_pages config pageId)"

definition WebDAVStorage_clearAll :: "webdav_config \<Rightarrow> (unit, world) action" where
  "WebDAVStorage_clearAll config =
     andThen (WebDAVStorage_getAllWorkspaces config)
       (for_each (\<lambda>workspace.
          andThen (lift (get_prop workspace ''id'')) (\<lambda>wid.
          andThen (makeRequest config (''/workspace-'' @ to_string wid @ ''.json'') ''DELETE'' None) (\<lambda>_.
          andThen (makeRequest config (''/pages/workspace-'' @ to_string wid @ ''/'') ''DELETE'' None) (\<lambda>_.
            ret ())))))"

text \<open>The two loops of \<open>exportData\<close>, filling \<open>data\<close>.\<close>

fun export_pages ::
  "webdav_config \<Rightarrow> jsval list \<Rightarrow> (string \<times> jsval) list \<Rightarrow> ((string \<times> jsval) list, world) action" where
  "export_pages config [] acc = ret acc"
| "export_pages config (page # pages) acc =
     andThen (lift (get_prop page ''id'')) (\<lambda>pid.
     andThen (WebDAVStorage_getPage config (to_string pid)) (\<lambda>pageData.
       export_pages config pages
         (if truthy pageData then AList.update (''page_'' @ to_string pid) pageData acc else acc)))"

fun export_workspaces ::
  "webdav_config \<Rightarrow> jsval list \<Rightarrow> (string \<times> jsval) list \<Rightarrow> ((string \<times> jsval) list, world) action" where
  "export_workspaces config [] acc = ret acc"
| "export_workspaces config (workspace # rest) acc =
     andThen (lift (get_prop workspace ''id'')) (\<lambda>wid.
     andThen (lift (get_prop workspace ''pages'')) (\<lambda>wpages.
     andThen (lift (iterate wpages)) (\<lambda>pages.
     andThen (export_pages config pages (AList.update (''workspace_'' @ to_string wid) workspace acc))
       (export_workspaces config rest))))"

definition WebDAVStorage_exportData :: "webdav_config \<Rightarrow> (body, world) action" where
  "WebDAVStorage_exportData config =
     andThen (WebDAVStorage_getAllWorkspaces config) (\<lambda>workspaces.
     andThen (export_workspaces config workspaces []) (\<lambda>data.
       lift (stringify_text (JObj data))))"

definition WebDAVStorage_importData :: "webdav_config \<Rightarrow> body \<Rightarrow> (unit, world) action" where
  "WebDAVStorage_importData config jsonData =
     andThen (lift (JSON_parse jsonData)) (\<lambda>data.
     andThen (WebDAVStorage_clearAll config) (\<lambda>_.
     andThen (lift (Object_entries data)) (\<lambda>es.
     andThen (for_each (WebDAVStorage_saveWorkspace config)
                (map snd (filter (\<lambda>e. startsWith (fst e) ''workspace_'') es))) (\<lambda>_.
       for_each (WebDAVStorage_savePage config)
         (map snd (filter (\<lambda>e. \<not> startsWith (fst e) ''workspace_'' \<and> startsWith (fst e) ''page_'') es))))))"

section \<open>StorageProvider: the three kinds behind one interface\<close>

datatype provider =
    BrowserStorage
  | LocalStorage local_storage
  | WebDAVStorage webdav_config

text \<open>
  A call through the interface runs the method of the object's class; a \<open>LocalStorage\<close>
  object keeps what the method did to its \<open>directoryHandle\<close>.
\<close>

definition dispatch ::
  "('a, world) action \<Rightarrow> ('a, local_storage \<times> world) action \<Rightarrow> (webdav_config \<Rightarrow> ('a, world) action)
     \<Rightarrow> ('a, provider \<times> world) action" where
  "dispatch browser local webdav s =
     (case fst s of
        BrowserStorage \<Rightarrow> on_world browser s
      | LocalStorage l \<Rightarrow> (case local (l, snd s) of (r, (l', w')) \<Rightarrow> (r, (LocalStorage l', w')))
      | WebDAVStorage c \<Rightarrow> on_world (webdav c) s)"

definition provider_isAvailable :: "(bool, provider \<times> world) action" where
  "provider_isAvailable =
     dispatch BrowserStorage_isAvailable LocalStorage_isAvailable WebDAVStorage_isAvailable"

definition provider_saveWorkspace :: "jsval \<Rightarrow> (unit, provider \<times> world) action" where
  "provider_saveWorkspace workspace =
     dispatch (BrowserStorage_saveWorkspace workspace) (LocalStorage_saveWorkspace workspace)
       (\<lambda>c. WebDAVStorage_saveWorkspace c workspace)"

definition provider_getWorkspace :: "string \<Rightarrow> (jsval, provider \<times> world) action" where
  "provider_getWorkspace workspaceId =
     dispatch (BrowserStorage_getWorkspace workspaceId) (LocalStorage_getWorkspace workspaceId)
       (\<lambda>c. WebDAVStorage_getWorkspace c workspaceId)"

definition provider_savePage :: "jsval \<Rightarrow> (unit, provider \<times> world) action" where
  "provider_savePage page =
     dispatch (BrowserStorage_savePage page) (LocalStorage_savePage page)
       (\<lambda>c. WebDAVStorage_savePage c page)"

definition provider_getPage :: "string \<Rightarrow> (jsval, provider \<times> world) action" where
  "provider_getPage pageId =
     dispatch (BrowserStorage_getPage pageId) (LocalStorage_getPage pageId)
       (\<lambda>c. WebDAVStorage_getPage c pageId)"

definition provider_deletePage :: "string \<Rightarrow> (unit, provider \<times> world) action" where
  "provider_deletePage pageId =
     dispatch (BrowserStorage_deletePage pageId) (LocalStorage_deletePage pageId)
       (\<lambda>c. WebDAVStorage_deletePage c pageId)"

definition provider_getAllWorkspaces :: "(jsval list, provider \<times> world) action" where
  "provider_getAllWorkspaces =
     dispatch BrowserStorage_getAllWorkspaces LocalStorage_getAllWorkspaces
       WebDAVStorage_getAllWorkspaces"

definition provider_clearAll :: "(unit, provider \<times> world) action" where
  "provider_clearAll =
     dispatch BrowserStorage_clearAll LocalStorage_clearAll WebDAVStorage_clearAll"

definition provider_exportData :: "(body, provider \<times> world) action" where
  "provider_exportData =
     dispatch BrowserStorage_exportData LocalStorage_exportData WebDAVStorage_exportData"

definition provider_importData :: "body \<Rightarrow> (unit, provider \<times> world) action" where
  "provider_importData jsonData =
     dispatch (BrowserStorage_importData jsonData) (LocalStorage_importData jsonData)
       (\<lambda>c. WebDAVStorage_importData c jsonData)"

section \<open>StorageManager\<close>

text \<open>
  \<open>StorageConfig\<close>. Its \<open>type\<close> is a string at run time (\<open>configureStorage(config: any)\<close>
  passes whatever it is given); an absent \<open>localPath\<close> or \<open>webdavConfig\<close> is \<open>None\<close>.
\<close>

record storage_config =
  type :: string
  localPath :: "string option"
  webdavConfig :: "webdav_config option"

record storage_manager =
  provider :: provider
  config :: storage_config
  fallbackProvider :: provider

definition createProvider :: "storage_config \<Rightarrow> provider result" where
  "createProvider cfg =
     (if type cfg = ''webdav'' then
        (case webdavConfig cfg of
           None \<Rightarrow> Inl (new_Error ''WebDAV config is required for WebDAV storage'')
         | Some c \<Rightarrow> Inr (WebDAVStorage c))
      else if type cfg = ''browser'' then Inr BrowserStorage
      else if type cfg = ''local'' then
        (case localPath cfg of
           None \<Rightarrow> Inl (new_Error ''Local path is required for local storage'')
         | Some p \<Rightarrow>
             if p = [] then Inl (new_Error ''Local path is required for local storage'')
             else Inr (LocalStorage (new_LocalStorage p)))
      else Inl (new_Error (''Unsupported storage type: '' @ type cfg)))"

text \<open>The constructor: it throws when \<open>createProvider\<close> does, and then there is no manager.\<close>

definition new_StorageManager :: "storage_config \<Rightarrow> storage_manager result" where
  "new_StorageManager cfg =
     (case createProvider cfg of
        Inl e \<Rightarrow> Inl e
      | Inr p \<Rightarrow> Inr \<lparr>provider = p, config = cfg, fallbackProvider = BrowserStorage\<rparr>)"

definition updateConfig :: "storage_config \<Rightarrow> (unit, storage_manager \<times> world) action" where
  "updateConfig cfg s =
     (case createProvider cfg of
        Inl e \<Rightarrow> (Inl e, ((fst s)\<lparr>config := cfg\<rparr>, snd s))
      | Inr p \<Rightarrow> (Inr (), ((fst s)\<lparr>config := cfg, provider := p\<rparr>, snd s)))"

definition getConfig :: "storage_manager \<Rightarrow> storage_config" where
  "getConfig m = config m"

text \<open>\<open>this.provider.op(...)\<close> and \<open>this.fallbackProvider.op(...)\<close>\<close>

definition on_provider :: "('a, provider \<times> world) action \<Rightarrow> ('a, storage_manager \<times> world) action" where
  "on_provider m s =
     (case m (provider (fst s), snd s) of
        (r, (p', w')) \<Rightarrow> (r, ((fst s)\<lparr>provider := p'\<rparr>, w')))"

definition on_fallback :: "('a, provider \<times> world) action \<Rightarrow> ('a, storage_manager \<times> world) action" where
  "on_fallback m s =
     (case m (fallbackProvider (fst s), snd s) of
        (r, (p', w')) \<Rightarrow> (r, ((fst s)\<lparr>fallbackProvider := p'\<rparr>, w')))"

text \<open>A method of an object held in a local variable: the result, and the object after it.\<close>

definition on_object ::
  "provider \<Rightarrow> ('a, provider \<times> world) action \<Rightarrow> ('a \<times> provider, storage_manager \<times> world) action" where
  "on_object p m s =
     (case m (p, snd s) of
        (Inl e, (p', w')) \<Rightarrow> (Inl e, (fst s, w'))
      | (Inr a, (p', w')) \<Rightarrow> (Inr (a, p'), (fst s, w')))"

definition StorageManager_isAvailable :: "(bool, storage_manager \<times> world) action" where
  "StorageManager_isAvailable = on_provider provider_isAvailable"

definition executeWithFallback ::
  "('a, 's) action \<Rightarrow> ('a, 's) action option \<Rightarrow> ('a, 's) action" where
  "executeWithFallback operation fallbackOperation =
     try_catch operation (\<lambda>error.
       case fallbackOperation of
         Some fallback \<Rightarrow> try_catch fallback (\<lambda>fallbackError. throw fallbackError)
       | None \<Rightarrow> throw error)"

definition StorageManager_saveWorkspace :: "jsval \<Rightarrow> (unit, storage_manager \<times> world) action" where
  "StorageManager_saveWorkspace workspace =
     executeWithFallback
       (on_provider (provider_saveWorkspace workspace))
       (Some (on_fallback (provider_saveWorkspace workspace)))"

definition StorageManager_getWorkspace :: "string \<Rightarrow> (jsval, storage_manager \<times> world) action" where
  "StorageManager_getWorkspace workspaceId =
     executeWithFallback
       (on_provider (provider_getWorkspace workspaceId))
       (Some (on_fallback (provider_getWorkspace workspaceId)))"

definition StorageManager_savePage :: "jsval \<Rightarrow> (unit, storage_manager \<times> world) action" where
  "StorageManager_savePage page =
     executeWithFallback
       (on_provider (provider_savePage page))
       (Some (on_fallback (provider_savePage page)))"

definition StorageManager_getPage :: "string \<Rightarrow> (jsval, storage_manager \<times> world) action" where
  "StorageManager_getPage pageId =
     executeWithFallback
       (on_provider (provider_getPage pageId))
       (Some (on_fallback (provider_getPage pageId)))"

definition StorageManager_deletePage :: "string \<Rightarrow> (unit, storage_manager \<times> world) action" where
  "StorageManager_deletePage pageId =
     executeWithFallback
       (on_provider (provider_deletePage pageId))
       (Some (on_fallback (provider_deletePage pageId)))"

definition StorageManager_getAllWorkspaces :: "(jsval list, storage_manager \<times> world) action" where
  "StorageManager_getAllWorkspaces =
     executeWithFallback
       (on_provider provider_getAllWorkspaces)
       (Some (on_fallback provider_getAllWorkspaces))"

definition StorageManager_clearAll :: "(unit, storage_manager \<times> world) action" where
  "StorageManager_clearAll =
     executeWithFallback
       (on_provider provider_clearAll)
       (Some (on_fallback provider_clearAll))"

definition StorageManager_exportData :: "(body, storage_manager \<times> world) action" where
  "StorageManager_exportData =
     executeWithFallback
       (on_provider provider_exportData)
       (Some (on_fallback provider_exportData))"

definition StorageManager_importData :: "body \<Rightarrow> (unit, storage_manager \<times> world) action" where
  "StorageManager_importData jsonData =
     executeWithFallback
       (on_provider (provider_importData jsonData))
       (Some (on_fallback (provider_importData jsonData)))"

definition migrateData :: "storage_config \<Rightarrow> (unit, storage_manager \<times> world) action" where
  "migrateData targetConfig =
     andThen StorageManager_exportData (\<lambda>exported.
     andThen (lift (createProvider targetConfig)) (\<lambda>newProvider.
     andThen (on_object newProvider provider_isAvailable) (\<lambda>available.
       if \<not> fst available
       then throw (new_Error ''Target storage provider is not available'')
       else andThen (on_object (snd available) (provider_importData exported)) (\<lambda>imported s.
              (Inr (), ((fst s)\<lparr>config := targetConfig, provider := snd imported\<rparr>, snd s))))))"

definition syncBetweenProviders :: "(unit, storage_manager \<times> world) action" where
  "syncBetweenProviders s =
     (if type (config (fst s)) = ''browser'' then (Inr (), s)
      else try_catch
             (andThen (on_provider provider_exportData) (\<lambda>primaryData.
                on_fallback (provider_importData primaryData)))
             (\<lambda>error. ret ()) s)"

section \<open>Pages and workspaces as \<open>types.ts\<close> declares them\<close>

text \<open>
  \<open>Page\<close>: \<open>id\<close>, \<open>title\<close>, \<open>content\<close>, \<open>isFolder\<close>, the dates \<open>createdAt\<close> and
  \<open>updatedAt\<close>, and the optional \<open>parentId\<close>, \<open>children\<close>, \<open>isActive\<close> and \<open>indent\<close>.
  \<open>Workspace\<close>: \<open>id\<close>, \<open>name\<close>, \<open>pages\<close> and the optional \<open>currentPageId\<close>. The object
  that a well-typed caller hands to a provider is \<open>js_of_page\<close>, \<open>js_of_workspace\<close>: an
  optional property that is absent is not there, and the dates are \<open>Date\<close> objects.
\<close>

datatype page =
  Page string string string bool string string "string option" "page list option" "bool option" "int option"

datatype workspace = Workspace string string "page list" "string option"

fun optional :: "string \<Rightarrow> 'a option \<Rightarrow> ('a \<Rightarrow> jsval) \<Rightarrow> (string \<times> jsval) list" where
  "optional k None f = []"
| "optional k (Some x) f = [(k, f x)]"

fun js_of_page :: "page \<Rightarrow> jsval" where
  "js_of_page (Page pid title content isFolder createdAt updatedAt parentId children isActive indent) =
     JObj ([(''id'', JStr pid), (''title'', JStr title), (''content'', JStr content),
            (''isFolder'', JBool isFolder), (''createdAt'', JDate createdAt),
            (''updatedAt'', JDate updatedAt)]
           @ optional ''parentId'' parentId JStr
           @ (case children of None \<Rightarrow> [] | Some ps \<Rightarrow> [(''children'', JArr (map js_of_page ps))])
           @ optional ''isActive'' isActive JBool
           @ optional ''indent'' indent JNum)"

fun page_id :: "page \<Rightarrow> string" where
  "page_id (Page pid title content isFolder createdAt updatedAt parentId children isActive indent) = pid"

fun js_of_workspace :: "workspace \<Rightarrow> jsval" where
  "js_of_workspace (Workspace wid wname pages currentPageId) =
     JObj ([(''id'', JStr wid), (''name'', JStr wname), (''pages'', JArr (map js_of_page pages))]
           @ optional ''currentPageId'' currentPageId JStr)"

section \<open>Notions of the specification, and sample data\<close>

text \<open>
  An invalid configuration, in the specification's words: type \<open>local\<close> without a
  \<open>localPath\<close>, type \<open>webdav\<close> without a \<open>webdavConfig\<close>, or a type that is none of the
  three.
\<close>

definition invalid_config :: "storage_config \<Rightarrow> bool" where
  "invalid_config cfg =
     (type cfg = ''local'' \<and> localPath cfg = None \<or>
      type cfg = ''webdav'' \<and> webdavConfig cfg = None \<or>
      type cfg \<notin> {''browser'', ''local'', ''webdav''})"

text \<open>
  The fallback wrapper, in the specification's words: \<open>op\<close> returns what the attempt on
  the active provider returns; when that attempt throws, \<open>op\<close> is the same operation on the
  fallback provider, run in the state the failed attempt left, so that a second failure
  surfaces the fallback's error.
\<close>

definition falls_back :: "('a, 's) action \<Rightarrow> ('a, 's) action \<Rightarrow> ('a, 's) action \<Rightarrow> bool" where
  "falls_back op primary fallback =
     (\<forall>s s1.
        (\<forall>v. primary s = (Inr v, s1) \<longrightarrow> op s = (Inr v, s1)) \<and>
        (\<forall>e. primary s = (Inl e, s1) \<longrightarrow> op s = fallback s1) \<and>
        (\<forall>e e' s2. primary s = (Inl e, s1) \<and> fallback s1 = (Inl e', s2) \<longrightarrow> op s = (Inl e', s2)))"

text \<open>A healthy, empty environment, and a manager on the browser store.\<close>

definition world0 :: world where
  "world0 = \<lparr>lf_items = [], lf_broken = False, has_picker = True, picker_grants = True,
     fs_writable = True, dir_entries = [], online = True, typed_json = False,
     error_json = False, error_body = OtherText ''Not Found'', refused = [],
     resources = [], clock = ''2024-05-01T10:00:00.000Z''\<rparr>"

definition browser_config :: storage_config where
  "browser_config = \<lparr>type = ''browser'', localPath = None, webdavConfig = None\<rparr>"

definition manager0 :: storage_manager where
  "manager0 = \<lparr>provider = BrowserStorage, config = browser_config, fallbackProvider = BrowserStorage\<rparr>"

definition bad_local_config :: storage_config where
  "bad_local_config = \<lparr>type = ''local'', localPath = None, webdavConfig = None\<rparr>"

text \<open>
  The same provider object, whatever directory handle it has acquired in the meantime.
\<close>

fun same_object :: "provider \<Rightarrow> provider \<Rightarrow> bool" where
  "same_object BrowserStorage BrowserStorage = True"
| "same_object (LocalStorage l) (LocalStorage l') = (basePath l = basePath l')"
| "same_object (WebDAVStorage c) (WebDAVStorage c') = (c = c')"
| "same_object p p' = False"

text \<open>An operation that leaves the environment as it found it.\<close>

definition readonly :: "('a, world) action \<Rightarrow> bool" where
  "readonly m = (\<forall>w. snd (m w) = w)"

definition keeps_world :: "('a, 'p \<times> world) action \<Rightarrow> bool" where
  "keeps_world m = (\<forall>s. snd (snd (m s)) = snd s)"

text \<open>An operation of a \<open>LocalStorage\<close> object that leaves its \<open>basePath\<close> alone.\<close>

definition keeps_path :: "('a, local_storage \<times> world) action \<Rightarrow> bool" where
  "keeps_path m = (\<forall>s. basePath (fst (snd (m s))) = basePath (fst s))"

definition page0 :: page where
  "page0 = Page ''p1'' ''Notes'' ''<p>hello</p>'' False ''2024-04-30T08:00:00.000Z''
     ''2024-04-30T09:30:00.000Z'' None None None None"

definition workspace0 :: workspace where
  "workspace0 = Workspace ''default'' ''My Workspace'' [page0] (Some ''p1'')"

definition workspace1 :: workspace where
  "workspace1 = Workspace ''projects'' ''Projects'' [] None"

definition dav_config :: webdav_config where
  "dav_config = \<lparr>url = ''https://dav.example.org/notes/'', username = ''u'', password = ''p'',
     enabled = True, lastSync = None\<rparr>"

definition webdav_storage_config :: storage_config where
  "webdav_storage_config = \<lparr>type = ''webdav'', localPath = None, webdavConfig = Some dav_config\<rparr>"


definition webdav_manager :: storage_manager where
  "webdav_manager = \<lparr>provider = WebDAVStorage dav_config, config = webdav_storage_config,
     fallbackProvider = BrowserStorage\<rparr>"

text \<open>
  The URLs that \<open>WebDAVStorage\<close> requests for the workspace with a given id, and for a page
  below a workspace object that was read from the server.
\<close>

definition workspace_url :: "webdav_config \<Rightarrow> string \<Rightarrow> string" where
  "workspace_url dav workspaceId = strip_slash (url dav) @ ''/workspace-'' @ workspaceId @ ''.json''"

definition page_url :: "webdav_config \<Rightarrow> jsval \<Rightarrow> string \<Rightarrow> string" where
  "page_url dav workspace pageId =
     strip_slash (url dav)
       @ page_path (case get_prop workspace ''id'' of Inr wid \<Rightarrow> wid | Inl e \<Rightarrow> JUndefined) pageId"

text \<open>
  The value of a body that a server sends with status 200: that of its document, or, when
  the server labels the body \<open>application/json\<close> and the document is a single string, the
  value of the document that the characters of this string spell.
\<close>

definition body_value :: "bool \<Rightarrow> body \<Rightarrow> jsval result" where
  "body_value is_json b =
     (case JSON_parse b of
        Inl e \<Rightarrow> Inl e
      | Inr v \<Rightarrow>
          if is_json then (case v of JStr s \<Rightarrow> JSON_parse (body_of_string s) | _ \<Rightarrow> Inr v)
          else Inr v)"

text \<open>
  The workspace that a server serves under an id: the value of the resource at
  \<open>/workspace-<id>.json\<close>, when there is one and its value is an object (or any other
  truthy value).
\<close>

definition served_workspace :: "webdav_config \<Rightarrow> world \<Rightarrow> string \<Rightarrow> jsval option" where
  "served_workspace dav w workspaceId =
     (case map_of (resources w) (workspace_url dav workspaceId) of
        None \<Rightarrow> None
      | Some b \<Rightarrow>
          (case body_value (typed_json w) b of
             Inl e \<Rightarrow> None
           | Inr v \<Rightarrow> if truthy v then Some v else None))"

text \<open>
  The key under which \<open>exportData\<close> of \<open>WebDAVStorage\<close> files a workspace object, and the
  values that \<open>JSON.parse\<close> can build.
\<close>

definition workspace_key :: "jsval \<Rightarrow> string" where
  "workspace_key workspace =
     ''workspace_'' @ to_string (case get_prop workspace ''id'' of Inr wid \<Rightarrow> wid | Inl e \<Rightarrow> JUndefined)"

definition json_born :: "jsval \<Rightarrow> bool" where
  "json_born v = (\<exists>j. v = parse_json j)"

definition is_workspace_key :: "string \<times> jsval \<Rightarrow> bool" where
  "is_workspace_key e = startsWith (fst e) ''workspace_''"


text \<open>A server that holds the sample workspace, and one that also holds its page.\<close>

definition dav_world :: world where
  "dav_world = world0\<lparr>resources :=
     [(''https://dav.example.org/notes/workspace-default.json'',
       JsonText (the (JSON_stringify (js_of_workspace workspace0))))]\<rparr>"

definition dav_world_page :: world where
  "dav_world_page = world0\<lparr>resources :=
     [(''https://dav.example.org/notes/workspace-default.json'',
       JsonText (the (JSON_stringify (js_of_workspace workspace0)))),
      (''https://dav.example.org/notes/pages/workspace-default/page-p1.json'',
       JsonText (the (JSON_stringify (js_of_page page0))))]\<rparr>"

text \<open>
  A server on which another client has put the workspace \<open>projects\<close> at the URL of
  \<open>default\<close>; a server that holds the document \<open>null\<close> there; a server that labels its resources JSON and holds there a document that is a
  string, spelling a number and spelling a workspace; and a server that labels its error
  pages JSON, their body being no JSON.
\<close>

definition dav_world_foreign :: world where
  "dav_world_foreign = world0\<lparr>resources :=
     [(''https://dav.example.org/notes/workspace-default.json'',
       JsonText (the (JSON_stringify (js_of_workspace workspace1))))]\<rparr>"

definition dav_world_null :: world where
  "dav_world_null = world0\<lparr>resources :=
     [(''https://dav.example.org/notes/workspace-default.json'', JsonText TNull)]\<rparr>"

definition dav_world_string :: "string \<Rightarrow> world" where
  "dav_world_string s = world0\<lparr>typed_json := True, resources :=
     [(''https://dav.example.org/notes/workspace-default.json'', JsonText (TStr s))]\<rparr>"

definition dav_world_json_errors :: world where
  "dav_world_json_errors = dav_world\<lparr>error_json := True\<rparr>"




section \<open>Properties\<close>

lemma stringify_parse:
  "JSON_stringify (parse_json j) = Some j"
  "stringify_elems (parse_elems js) = js"
  "stringify_props (parse_props kjs) = kjs"
  by (induction j and js and kjs rule: parse_json_parse_elems_parse_props.induct) simp_all

lemma json_image_parse: "json_image (parse_json j) = parse_json j"
  by (simp add: json_image_def stringify_parse)

subsection \<open>Operations that only read\<close>

lemmas action_defs = ret_def throw_def lift_def andThen_def try_catch_def on_world_def

lemmas lf_defs =
  lf_ready_def lf_setItem_def lf_getItem_def lf_removeItem_def lf_keys_def lf_clear_def lf_error_def

lemma readonly_ret [simp]: "readonly (ret a)"
  by (simp add: readonly_def ret_def)

lemma readonly_throw [simp]: "readonly (throw e)"
  by (simp add: readonly_def throw_def)

lemma readonly_lift [simp]: "readonly (lift r)"
  by (simp add: readonly_def lift_def)

lemma readonlyD: "readonly m \<Longrightarrow> m w = (r, w') \<Longrightarrow> w' = w"
  by (metis readonly_def snd_conv)

lemma readonlyI: "(\<And>w r w'. m w = (r, w') \<Longrightarrow> w' = w) \<Longrightarrow> readonly m"
  by (metis readonly_def prod.collapse)

lemma keeps_worldD: "keeps_world m \<Longrightarrow> m s = (r, s') \<Longrightarrow> snd s' = snd s"
  by (metis keeps_world_def snd_conv)

lemma keeps_worldI: "(\<And>s r s'. m s = (r, s') \<Longrightarrow> snd s' = snd s) \<Longrightarrow> keeps_world m"
  by (metis keeps_world_def prod.collapse)

lemma readonly_andThen:
  assumes "readonly m" and "\<And>a. readonly (f a)"
  shows "readonly (andThen m f)"
proof (rule readonlyI)
  fix w r w' assume run: "andThen m f w = (r, w')"
  obtain r1 w1 where mw: "m w = (r1, w1)" by (cases "m w")
  with assms(1) have w1: "w1 = w" by (rule readonlyD)
  show "w' = w"
  proof (cases r1)
    case (Inl e)
    with run mw w1 show ?thesis by (simp add: andThen_def)
  next
    case (Inr a)
    with run mw have "f a w1 = (r, w')" by (simp add: andThen_def)
    with assms(2) have "w' = w1" by (rule readonlyD)
    with w1 show ?thesis by simp
  qed
qed

lemma readonly_try_catch:
  assumes "readonly m" and "\<And>e. readonly (h e)"
  shows "readonly (try_catch m h)"
proof (rule readonlyI)
  fix w r w' assume run: "try_catch m h w = (r, w')"
  obtain r1 w1 where mw: "m w = (r1, w1)" by (cases "m w")
  with assms(1) have w1: "w1 = w" by (rule readonlyD)
  show "w' = w"
  proof (cases r1)
    case (Inl e)
    with run mw have "h e w1 = (r, w')" by (simp add: try_catch_def)
    with assms(2) have "w' = w1" by (rule readonlyD)
    with w1 show ?thesis by simp
  next
    case (Inr a)
    with run mw w1 show ?thesis by (simp add: try_catch_def)
  qed
qed

lemma keeps_ret [simp]: "keeps_world (ret a)"
  by (simp add: keeps_world_def ret_def)

lemma keeps_throw [simp]: "keeps_world (throw e)"
  by (simp add: keeps_world_def throw_def)

lemma keeps_lift [simp]: "keeps_world (lift r)"
  by (simp add: keeps_world_def lift_def)

lemma keeps_andThen:
  assumes "keeps_world m" and "\<And>a. keeps_world (f a)"
  shows "keeps_world (andThen m f)"
proof (rule keeps_worldI)
  fix s r s' assume run: "andThen m f s = (r, s')"
  obtain r1 s1 where ms: "m s = (r1, s1)" by (cases "m s")
  with assms(1) have s1: "snd s1 = snd s" by (rule keeps_worldD)
  show "snd s' = snd s"
  proof (cases r1)
    case (Inl e)
    with run ms s1 show ?thesis by (auto simp: andThen_def)
  next
    case (Inr a)
    with run ms have "f a s1 = (r, s')" by (simp add: andThen_def)
    with assms(2) have "snd s' = snd s1" by (rule keeps_worldD)
    with s1 show ?thesis by simp
  qed
qed

lemma keeps_try_catch:
  assumes "keeps_world m" and "\<And>e. keeps_world (h e)"
  shows "keeps_world (try_catch m h)"
proof (rule keeps_worldI)
  fix s r s' assume run: "try_catch m h s = (r, s')"
  obtain r1 s1 where ms: "m s = (r1, s1)" by (cases "m s")
  with assms(1) have s1: "snd s1 = snd s" by (rule keeps_worldD)
  show "snd s' = snd s"
  proof (cases r1)
    case (Inl e)
    with run ms have "h e s1 = (r, s')" by (simp add: try_catch_def)
    with assms(2) have "snd s' = snd s1" by (rule keeps_worldD)
    with s1 show ?thesis by simp
  next
    case (Inr a)
    with run ms s1 show ?thesis by (auto simp: try_catch_def)
  qed
qed

lemma keeps_on_world: "readonly m \<Longrightarrow> keeps_world (on_world m)"
  by (rule keeps_worldI) (auto simp: on_world_def split: prod.splits dest: readonlyD)

lemma readonly_lf_keys [simp]: "readonly lf_keys"
  by (simp add: readonly_def lf_keys_def)

lemma readonly_lf_getItem [simp]: "readonly (lf_getItem k)"
  by (simp add: readonly_def lf_getItem_def)

lemma readonly_lf_ready [simp]: "readonly lf_ready"
  by (simp add: readonly_def lf_ready_def)

lemma readonly_load_items: "readonly (load_items keys acc)"
  by (induction keys arbitrary: acc) (simp_all add: readonly_andThen)

lemma readonly_load_workspaces: "readonly (load_workspaces keys)"
  by (induction keys) (simp_all add: readonly_andThen)

lemma readonly_BrowserStorage_exportData: "readonly BrowserStorage_exportData"
  unfolding BrowserStorage_exportData_def
  by (intro readonly_try_catch readonly_andThen readonly_load_items) simp_all

lemma readonly_BrowserStorage_isAvailable: "readonly BrowserStorage_isAvailable"
  unfolding BrowserStorage_isAvailable_def
  by (intro readonly_try_catch readonly_andThen) simp_all

lemma readonly_BrowserStorage_getAllWorkspaces: "readonly BrowserStorage_getAllWorkspaces"
  unfolding BrowserStorage_getAllWorkspaces_def
  by (intro readonly_try_catch readonly_andThen readonly_load_workspaces) simp_all

lemma readonly_showDirectoryPicker [simp]: "readonly showDirectoryPicker"
  by (simp add: readonly_def showDirectoryPicker_def)

lemma readonly_entries [simp]: "readonly entries"
  by (simp add: readonly_def entries_def)

lemma keeps_ensureDirectoryHandle [simp]: "keeps_world ensureDirectoryHandle"
  by (simp add: keeps_world_def ensureDirectoryHandle_def andThen_def on_world_def
      showDirectoryPicker_def)

lemma keeps_LocalStorage_getAllWorkspaces: "keeps_world LocalStorage_getAllWorkspaces"
  unfolding LocalStorage_getAllWorkspaces_def
  by (intro keeps_andThen keeps_try_catch keeps_on_world) simp_all

lemma keeps_LocalStorage_exportData: "keeps_world LocalStorage_exportData"
  unfolding LocalStorage_exportData_def
  by (intro keeps_andThen keeps_try_catch keeps_on_world keeps_LocalStorage_getAllWorkspaces
      keeps_ensureDirectoryHandle keeps_throw keeps_lift readonly_entries)
     (simp add: keeps_world_def lift_def)

lemma keeps_LocalStorage_isAvailable: "keeps_world LocalStorage_isAvailable"
  by (simp add: keeps_world_def LocalStorage_isAvailable_def)

lemma fetch_GET: "snd (fetch ''GET'' u c w) = w"
  by (simp add: fetch_def split: option.splits)

lemma fetch_PROPFIND: "snd (fetch ''PROPFIND'' u c w) = w"
  by (simp add: fetch_def)

lemma makeRequest_world:
  "snd (makeRequest dav path method c w) = snd (fetch method (strip_slash (url dav) @ path) c w)"
  by (simp add: makeRequest_def split: prod.splits fetched.splits body.splits)

lemma readonly_makeRequest_GET [simp]: "readonly (makeRequest dav path ''GET'' c)"
  by (simp add: readonly_def makeRequest_world fetch_GET)

lemma readonly_makeRequest_PROPFIND [simp]: "readonly (makeRequest dav path ''PROPFIND'' c)"
  by (simp add: readonly_def makeRequest_world fetch_PROPFIND)

lemma readonly_WebDAVStorage_isAvailable: "readonly (WebDAVStorage_isAvailable dav)"
  unfolding WebDAVStorage_isAvailable_def WebDAVStorage_testConnection_def
  by (intro readonly_try_catch readonly_andThen) simp_all

lemma readonly_WebDAVStorage_getWorkspace: "readonly (WebDAVStorage_getWorkspace dav i)"
  unfolding WebDAVStorage_getWorkspace_def
  by (intro readonly_andThen) simp_all

lemma readonly_probe_workspaces: "readonly (probe_workspaces dav ids)"
  by (induction ids) (simp_all add: readonly_andThen readonly_WebDAVStorage_getWorkspace)

lemma readonly_WebDAVStorage_getAllWorkspaces: "readonly (WebDAVStorage_getAllWorkspaces dav)"
  unfolding WebDAVStorage_getAllWorkspaces_def
  by (intro readonly_andThen) (simp_all add: readonly_probe_workspaces)

lemma readonly_probe_pages: "readonly (probe_pages dav pageId workspaces)"
  by (induction workspaces) (simp_all add: readonly_andThen)

lemma readonly_WebDAVStorage_getPage: "readonly (WebDAVStorage_getPage dav pageId)"
  unfolding WebDAVStorage_getPage_def
  by (intro readonly_andThen readonly_WebDAVStorage_getAllWorkspaces readonly_probe_pages)

lemma readonly_export_pages: "readonly (export_pages dav pages acc)"
  by (induction pages arbitrary: acc) (simp_all add: readonly_andThen readonly_WebDAVStorage_getPage)

lemma readonly_export_workspaces: "readonly (export_workspaces dav workspaces acc)"
  by (induction workspaces arbitrary: acc) (simp_all add: readonly_andThen readonly_export_pages)

lemma readonly_WebDAVStorage_exportData: "readonly (WebDAVStorage_exportData dav)"
  unfolding WebDAVStorage_exportData_def
  by (intro readonly_andThen readonly_WebDAVStorage_getAllWorkspaces readonly_export_workspaces)
     simp_all

lemma keeps_dispatch:
  assumes "readonly b" and "keeps_world l" and "\<And>c. readonly (d c)"
  shows "keeps_world (dispatch b l d)"
proof (rule keeps_worldI)
  fix s :: "provider \<times> world" and r s'
  assume run: "dispatch b l d s = (r, s')"
  show "snd s' = snd s"
  proof (cases "fst s")
    case BrowserStorage
    with run have "on_world b s = (r, s')" by (simp add: dispatch_def)
    with keeps_on_world [OF assms(1)] show ?thesis by (rule keeps_worldD)
  next
    case (LocalStorage ls)
    obtain r1 l1 w1 where lw: "l (ls, snd s) = (r1, (l1, w1))" by (metis prod.collapse)
    with assms(2) have "snd (l1, w1) = snd (ls, snd s)" by (rule keeps_worldD)
    with run lw LocalStorage show ?thesis by (auto simp: dispatch_def)
  next
    case (WebDAVStorage c)
    with run have "on_world (d c) s = (r, s')" by (simp add: dispatch_def)
    with keeps_on_world [OF assms(3) [of c]] show ?thesis by (rule keeps_worldD)
  qed
qed

lemma keeps_provider_exportData: "keeps_world provider_exportData"
  unfolding provider_exportData_def
  by (intro keeps_dispatch readonly_BrowserStorage_exportData keeps_LocalStorage_exportData
      readonly_WebDAVStorage_exportData)

lemma keeps_provider_isAvailable: "keeps_world provider_isAvailable"
  unfolding provider_isAvailable_def
  by (intro keeps_dispatch readonly_BrowserStorage_isAvailable keeps_LocalStorage_isAvailable
      readonly_WebDAVStorage_isAvailable)

lemma keeps_on_provider: "keeps_world m \<Longrightarrow> keeps_world (on_provider m)"
  by (rule keeps_worldI) (auto simp: on_provider_def split: prod.splits dest: keeps_worldD)

lemma keeps_on_fallback: "keeps_world m \<Longrightarrow> keeps_world (on_fallback m)"
  by (rule keeps_worldI) (auto simp: on_fallback_def split: prod.splits dest: keeps_worldD)

lemma keeps_executeWithFallback:
  "keeps_world a \<Longrightarrow> keeps_world b \<Longrightarrow> keeps_world (executeWithFallback a (Some b))"
  unfolding executeWithFallback_def
  by (intro keeps_try_catch) (simp_all add: keeps_try_catch)

lemma keeps_StorageManager_exportData: "keeps_world StorageManager_exportData"
  unfolding StorageManager_exportData_def
  by (intro keeps_executeWithFallback keeps_on_provider keeps_on_fallback keeps_provider_exportData)

subsection \<open>The manager\<close>

lemma createProvider_invalid:
  "invalid_config cfg \<Longrightarrow> \<exists>msg. createProvider cfg = Inl (new_Error msg)"
  by (auto simp: invalid_config_def createProvider_def)

lemma invalid_bad_local: "invalid_config bad_local_config"
  by (simp add: invalid_config_def bad_local_config_def)

lemma executeWithFallback_run:
  "executeWithFallback primary (Some fallback) s =
     (case primary s of
        (Inr v, s1) \<Rightarrow> (Inr v, s1)
      | (Inl e, s1) \<Rightarrow> fallback s1)"
  by (simp add: executeWithFallback_def try_catch_def throw_def split: prod.splits sum.splits)

lemma executeWithFallback_falls_back:
  "falls_back (executeWithFallback primary (Some fallback)) primary fallback"
  by (simp add: falls_back_def executeWithFallback_run)

lemma falls_back_both_fail:
  "falls_back op primary fallback \<Longrightarrow> primary s = (Inl e, s1) \<Longrightarrow> fallback s1 = (Inl e', s2)
     \<Longrightarrow> op s = (Inl e', s2)"
  unfolding falls_back_def by blast

text \<open>
  Claim C2. Each of the nine operations of \<open>StorageManager\<close> is first attempted on the
  active provider; exactly when that attempt throws, the same operation is attempted on the
  fallback browser provider and its result returned; when the fallback throws as well, the
  caller gets the fallback's error, not the active provider's.
\<close>

theorem manager_operations_fall_back:
  "falls_back (StorageManager_saveWorkspace workspace)
     (on_provider (provider_saveWorkspace workspace)) (on_fallback (provider_saveWorkspace workspace))
   \<and> falls_back (StorageManager_getWorkspace workspaceId)
     (on_provider (provider_getWorkspace workspaceId)) (on_fallback (provider_getWorkspace workspaceId))
   \<and> falls_back (StorageManager_savePage page)
     (on_provider (provider_savePage page)) (on_fallback (provider_savePage page))
   \<and> falls_back (StorageManager_getPage pageId)
     (on_provider (provider_getPage pageId)) (on_fallback (provider_getPage pageId))
   \<and> falls_back (StorageManager_deletePage pageId)
     (on_provider (provider_deletePage pageId)) (on_fallback (provider_deletePage pageId))
   \<and> falls_back StorageManager_getAllWorkspaces
     (on_provider provider_getAllWorkspaces) (on_fallback provider_getAllWorkspaces)
   \<and> falls_back StorageManager_clearAll
     (on_provider provider_clearAll) (on_fallback provider_clearAll)
   \<and> falls_back StorageManager_exportData
     (on_provider provider_exportData) (on_fallback provider_exportData)
   \<and> falls_back (StorageManager_importData jsonData)
     (on_provider (provider_importData jsonData)) (on_fallback (provider_importData jsonData))"
  unfolding StorageManager_saveWorkspace_def StorageManager_getWorkspace_def
    StorageManager_savePage_def StorageManager_getPage_def StorageManager_deletePage_def
    StorageManager_getAllWorkspaces_def StorageManager_clearAll_def StorageManager_exportData_def
    StorageManager_importData_def
  by (intro conjI executeWithFallback_falls_back)

text \<open>
  The witness: the WebDAV server cannot be reached and the browser store is broken. The
  attempt on the active provider fails with the network's error, the attempt on the
  fallback with the store's, and the store's is the one the manager throws.
\<close>

theorem manager_operations_fall_back_witness:
  "on_provider (provider_saveWorkspace (js_of_workspace workspace0))
       (webdav_manager, world0\<lparr>online := False, lf_broken := True\<rparr>)
     = (Inl (new_Error ''Failed to save workspace: Failed to fetch''),
        (webdav_manager, world0\<lparr>online := False, lf_broken := True\<rparr>))
   \<and> on_fallback (provider_saveWorkspace (js_of_workspace workspace0))
       (webdav_manager, world0\<lparr>online := False, lf_broken := True\<rparr>)
     = (Inl (new_Error ''Failed to save workspace: InvalidStateError: No available storage method found.''),
        (webdav_manager, world0\<lparr>online := False, lf_broken := True\<rparr>))
   \<and> StorageManager_saveWorkspace (js_of_workspace workspace0)
       (webdav_manager, world0\<lparr>online := False, lf_broken := True\<rparr>)
     = (Inl (new_Error ''Failed to save workspace: InvalidStateError: No available storage method found.''),
        (webdav_manager, world0\<lparr>online := False, lf_broken := True\<rparr>))"
proof -
  let ?s = "(webdav_manager, world0\<lparr>online := False, lf_broken := True\<rparr>)"
  let ?w = "js_of_workspace workspace0"
  have primary: "on_provider (provider_saveWorkspace ?w) ?s
      = (Inl (new_Error ''Failed to save workspace: Failed to fetch''), ?s)"
    by (simp add: on_provider_def provider_saveWorkspace_def dispatch_def webdav_manager_def
        WebDAVStorage_saveWorkspace_def action_defs workspace0_def page0_def world0_def
        makeRequest_def fetch_def stringify_text_def error_or_unknown_def)
  have fallback: "on_fallback (provider_saveWorkspace ?w) ?s
      = (Inl (new_Error ''Failed to save workspace: InvalidStateError: No available storage method found.''), ?s)"
    by (simp add: on_fallback_def provider_saveWorkspace_def dispatch_def webdav_manager_def
        BrowserStorage_saveWorkspace_def action_defs lf_defs workspace0_def page0_def world0_def
        error_string_def)
  from manager_operations_fall_back [of ?w]
  have "falls_back (StorageManager_saveWorkspace ?w)
     (on_provider (provider_saveWorkspace ?w)) (on_fallback (provider_saveWorkspace ?w))"
    by (rule conjunct1)
  from falls_back_both_fail [OF this primary fallback] primary fallback show ?thesis
    by (intro conjI)
qed

lemma on_provider_config:
  "on_provider a (m\<lparr>config := cfg\<rparr>, w) =
     (case on_provider a (m, w) of (r, (m', w')) \<Rightarrow> (r, (m'\<lparr>config := cfg\<rparr>, w')))"
  by (simp add: on_provider_def split: prod.splits)

lemma on_fallback_config:
  "on_fallback a (m\<lparr>config := cfg\<rparr>, w) =
     (case on_fallback a (m, w) of (r, (m', w')) \<Rightarrow> (r, (m'\<lparr>config := cfg\<rparr>, w')))"
  by (simp add: on_fallback_def split: prod.splits)

lemma executeWithFallback_config:
  "executeWithFallback (on_provider a) (Some (on_fallback b)) (m\<lparr>config := cfg\<rparr>, w) =
     (case executeWithFallback (on_provider a) (Some (on_fallback b)) (m, w) of
        (r, (m', w')) \<Rightarrow> (r, (m'\<lparr>config := cfg\<rparr>, w')))"
  by (simp add: executeWithFallback_run on_provider_config on_fallback_config
      split: prod.splits sum.splits)

text \<open>
  Claim C9. \<open>updateConfig\<close> is not atomic on failure: with an invalid configuration it
  throws, and afterwards \<open>getConfig()\<close> returns the rejected configuration while the
  manager still holds the provider built from the previous one, so that every storage
  operation runs as it would have without the call (only the stored configuration differs).
\<close>

theorem updateConfig_not_atomic:
  assumes "invalid_config cfg"
  shows "(\<exists>e. updateConfig cfg (m, w) = (Inl e, (m\<lparr>config := cfg\<rparr>, w)))
    \<and> getConfig (m\<lparr>config := cfg\<rparr>) = cfg
    \<and> provider (m\<lparr>config := cfg\<rparr>) = provider m
    \<and> fallbackProvider (m\<lparr>config := cfg\<rparr>) = fallbackProvider m
    \<and> (\<forall>workspace w1. StorageManager_saveWorkspace workspace (m\<lparr>config := cfg\<rparr>, w1) =
          (case StorageManager_saveWorkspace workspace (m, w1) of
             (r, (m', w')) \<Rightarrow> (r, (m'\<lparr>config := cfg\<rparr>, w'))))
    \<and> (\<forall>workspaceId w1. StorageManager_getWorkspace workspaceId (m\<lparr>config := cfg\<rparr>, w1) =
          (case StorageManager_getWorkspace workspaceId (m, w1) of
             (r, (m', w')) \<Rightarrow> (r, (m'\<lparr>config := cfg\<rparr>, w'))))
    \<and> (\<forall>page w1. StorageManager_savePage page (m\<lparr>config := cfg\<rparr>, w1) =
          (case StorageManager_savePage page (m, w1) of
             (r, (m', w')) \<Rightarrow> (r, (m'\<lparr>config := cfg\<rparr>, w'))))
    \<and> (\<forall>pageId w1. StorageManager_getPage pageId (m\<lparr>config := cfg\<rparr>, w1) =
          (case StorageManager_getPage pageId (m, w1) of
             (r, (m', w')) \<Rightarrow> (r, (m'\<lparr>config := cfg\<rparr>, w'))))
    \<and> (\<forall>pageId w1. StorageManager_deletePage pageId (m\<lparr>config := cfg\<rparr>, w1) =
          (case StorageManager_deletePage pageId (m, w1) of
             (r, (m', w')) \<Rightarrow> (r, (m'\<lparr>config := cfg\<rparr>, w'))))
    \<and> (\<forall>w1. StorageManager_getAllWorkspaces (m\<lparr>config := cfg\<rparr>, w1) =
          (case StorageManager_getAllWorkspaces (m, w1) of
             (r, (m', w')) \<Rightarrow> (r, (m'\<lparr>config := cfg\<rparr>, w'))))
    \<and> (\<forall>w1. StorageManager_clearAll (m\<lparr>config := cfg\<rparr>, w1) =
          (case StorageManager_clearAll (m, w1) of
             (r, (m', w')) \<Rightarrow> (r, (m'\<lparr>config := cfg\<rparr>, w'))))
    \<and> (\<forall>w1. StorageManager_exportData (m\<lparr>config := cfg\<rparr>, w1) =
          (case StorageManager_exportData (m, w1) of
             (r, (m', w')) \<Rightarrow> (r, (m'\<lparr>config := cfg\<rparr>, w'))))
    \<and> (\<forall>jsonData w1. StorageManager_importData jsonData (m\<lparr>config := cfg\<rparr>, w1) =
          (case StorageManager_importData jsonData (m, w1) of
             (r, (m', w')) \<Rightarrow> (r, (m'\<lparr>config := cfg\<rparr>, w'))))"
proof -
  from createProvider_invalid [OF assms]
  have "\<exists>e. updateConfig cfg (m, w) = (Inl e, (m\<lparr>config := cfg\<rparr>, w))"
    by (auto simp: updateConfig_def)
  then show ?thesis
    unfolding StorageManager_saveWorkspace_def StorageManager_getWorkspace_def
      StorageManager_savePage_def StorageManager_getPage_def StorageManager_deletePage_def
      StorageManager_getAllWorkspaces_def StorageManager_clearAll_def StorageManager_exportData_def
      StorageManager_importData_def
    by (simp add: getConfig_def executeWithFallback_config)
qed

text \<open>
  The witness: a manager on the browser store is given type \<open>local\<close> without a path. The
  call throws, \<open>getConfig()\<close> then answers the rejected configuration, and a workspace that
  is saved afterwards goes to the browser store.
\<close>

theorem updateConfig_not_atomic_witness:
  "invalid_config bad_local_config
   \<and> updateConfig bad_local_config (manager0, world0)
       = (Inl (new_Error ''Local path is required for local storage''),
          (manager0\<lparr>config := bad_local_config\<rparr>, world0))
   \<and> getConfig (manager0\<lparr>config := bad_local_config\<rparr>) = bad_local_config
   \<and> provider (manager0\<lparr>config := bad_local_config\<rparr>) = BrowserStorage
   \<and> StorageManager_saveWorkspace (js_of_workspace workspace0)
         (manager0\<lparr>config := bad_local_config\<rparr>, world0)
       = (Inr (), (manager0\<lparr>config := bad_local_config\<rparr>,
            world0\<lparr>lf_items := [(''workspace_default'', js_of_workspace workspace0)]\<rparr>))"
proof -
  have run: "StorageManager_saveWorkspace (js_of_workspace workspace0) (manager0, world0)
       = (Inr (), (manager0, world0\<lparr>lf_items := [(''workspace_default'', js_of_workspace workspace0)]\<rparr>))"
    by (simp add: StorageManager_saveWorkspace_def executeWithFallback_run on_provider_def
        provider_saveWorkspace_def dispatch_def manager0_def BrowserStorage_saveWorkspace_def
        action_defs lf_defs workspace0_def world0_def)
  have upd: "updateConfig bad_local_config (manager0, world0)
       = (Inl (new_Error ''Local path is required for local storage''),
          (manager0\<lparr>config := bad_local_config\<rparr>, world0))"
    by (simp add: updateConfig_def createProvider_def bad_local_config_def)
  from updateConfig_not_atomic [OF invalid_bad_local, of manager0 world0] run upd invalid_bad_local
  show ?thesis
    by (simp add: manager0_def)
qed

text \<open>
  Claim C7. Provider construction fails fast on an invalid configuration: for type
  \<open>local\<close> without \<open>localPath\<close>, type \<open>webdav\<close> without \<open>webdavConfig\<close>, and an unrecognised
  type, \<open>createProvider\<close> throws an \<open>Error\<close> and produces no provider, and so do the
  constructor of \<open>StorageManager\<close> and \<open>updateConfig\<close>.
\<close>

theorem construction_fails_fast:
  assumes "invalid_config cfg"
  shows "\<exists>msg. createProvider cfg = Inl (new_Error msg)
           \<and> new_StorageManager cfg = Inl (new_Error msg)
           \<and> fst (updateConfig cfg (m, w)) = Inl (new_Error msg)"
proof -
  from createProvider_invalid [OF assms]
  obtain msg where "createProvider cfg = Inl (new_Error msg)" ..
  then have "createProvider cfg = Inl (new_Error msg)
           \<and> new_StorageManager cfg = Inl (new_Error msg)
           \<and> fst (updateConfig cfg (m, w)) = Inl (new_Error msg)"
    by (simp add: new_StorageManager_def updateConfig_def)
  then show ?thesis ..
qed

theorem construction_fails_fast_witness:
  "invalid_config bad_local_config
   \<and> (\<exists>msg. createProvider bad_local_config = Inl (new_Error msg)
           \<and> new_StorageManager bad_local_config = Inl (new_Error msg)
           \<and> fst (updateConfig bad_local_config (manager0, world0)) = Inl (new_Error msg))"
  using construction_fails_fast [OF invalid_bad_local, of manager0 world0] invalid_bad_local
  by simp

subsection \<open>Migration\<close>

lemma migrateData_run:
  assumes "StorageManager_exportData s = (Inr exported, (m1, w1))"
    and "createProvider targetConfig = Inr newProvider"
    and "provider_isAvailable (newProvider, w1) = (Inr available, (p2, w2))"
  shows "migrateData targetConfig s =
     (if \<not> available
      then (Inl (new_Error ''Target storage provider is not available''), (m1, w2))
      else (case provider_importData exported (p2, w2) of
              (Inl e, (p3, w3)) \<Rightarrow> (Inl e, (m1, w3))
            | (Inr u, (p3, w3)) \<Rightarrow>
                (Inr (), (m1\<lparr>config := targetConfig, provider := p3\<rparr>, w3))))"
  using assms
  by (simp add: migrateData_def andThen_def lift_def throw_def on_object_def
      split: prod.splits sum.splits)

lemma provider_isAvailable_world:
  "provider_isAvailable (p, w) = (r, (p2, w2)) \<Longrightarrow> w2 = w"
  using keeps_worldD [OF keeps_provider_isAvailable, of "(p, w)" r "(p2, w2)"] by simp

lemma StorageManager_exportData_world:
  "StorageManager_exportData (m, w) = (r, (m1, w1)) \<Longrightarrow> w1 = w"
  using keeps_worldD [OF keeps_StorageManager_exportData, of "(m, w)" r "(m1, w1)"] by simp

lemma ensureDirectoryHandle_object:
  "ensureDirectoryHandle (l, w) = (r, (l', w')) \<Longrightarrow> basePath l' = basePath l"
  by (auto simp: ensureDirectoryHandle_def andThen_def on_world_def
      split: if_splits prod.splits sum.splits)

lemma dispatch_same_object:
  assumes "\<And>l w r l' w'. local (l, w) = (r, (l', w')) \<Longrightarrow> basePath l' = basePath l"
    and "dispatch browser local webdav (p, w) = (r, (p', w'))"
  shows "same_object p' p"
proof (cases p)
  case BrowserStorage
  with assms(2) show ?thesis
    by (auto simp: dispatch_def on_world_def split: prod.splits)
next
  case (LocalStorage l)
  obtain r1 l1 w1 where run: "local (l, w) = (r1, (l1, w1))" by (metis prod.collapse)
  from assms(1) [OF run] have "basePath l1 = basePath l" .
  with assms(2) run LocalStorage show ?thesis
    by (auto simp: dispatch_def)
next
  case (WebDAVStorage c)
  with assms(2) show ?thesis
    by (auto simp: dispatch_def on_world_def split: prod.splits)
qed

lemma keeps_pathD: "keeps_path m \<Longrightarrow> m s = (r, s') \<Longrightarrow> basePath (fst s') = basePath (fst s)"
  by (metis keeps_path_def snd_conv)

lemma keeps_pathI:
  "(\<And>s r s'. m s = (r, s') \<Longrightarrow> basePath (fst s') = basePath (fst s)) \<Longrightarrow> keeps_path m"
  by (metis keeps_path_def prod.collapse)

lemma path_ret [simp]: "keeps_path (ret a)"
  by (simp add: keeps_path_def ret_def)

lemma path_throw [simp]: "keeps_path (throw e)"
  by (simp add: keeps_path_def throw_def)

lemma path_lift [simp]: "keeps_path (lift r)"
  by (simp add: keeps_path_def lift_def)

lemma path_on_world [simp]: "keeps_path (on_world m)"
  by (simp add: keeps_path_def on_world_def split: prod.splits)

lemma path_ensureDirectoryHandle [simp]: "keeps_path ensureDirectoryHandle"
  by (rule keeps_pathI)
     (auto simp: ensureDirectoryHandle_def andThen_def on_world_def
       split: if_splits prod.splits sum.splits)

lemma path_andThen:
  assumes "keeps_path m" and "\<And>a. keeps_path (f a)"
  shows "keeps_path (andThen m f)"
proof (rule keeps_pathI)
  fix s r s' assume run: "andThen m f s = (r, s')"
  obtain r1 s1 where ms: "m s = (r1, s1)" by (cases "m s")
  with assms(1) have s1: "basePath (fst s1) = basePath (fst s)" by (rule keeps_pathD)
  show "basePath (fst s') = basePath (fst s)"
  proof (cases r1)
    case (Inl e)
    with run ms s1 show ?thesis by (auto simp: andThen_def)
  next
    case (Inr a)
    with run ms have "f a s1 = (r, s')" by (simp add: andThen_def)
    with assms(2) have "basePath (fst s') = basePath (fst s1)" by (rule keeps_pathD)
    with s1 show ?thesis by simp
  qed
qed

lemma path_try_catch:
  assumes "keeps_path m" and "\<And>e. keeps_path (h e)"
  shows "keeps_path (try_catch m h)"
proof (rule keeps_pathI)
  fix s r s' assume run: "try_catch m h s = (r, s')"
  obtain r1 s1 where ms: "m s = (r1, s1)" by (cases "m s")
  with assms(1) have s1: "basePath (fst s1) = basePath (fst s)" by (rule keeps_pathD)
  show "basePath (fst s') = basePath (fst s)"
  proof (cases r1)
    case (Inl e)
    with run ms have "h e s1 = (r, s')" by (simp add: try_catch_def)
    with assms(2) have "basePath (fst s') = basePath (fst s1)" by (rule keeps_pathD)
    with s1 show ?thesis by simp
  next
    case (Inr a)
    with run ms s1 show ?thesis by (auto simp: try_catch_def)
  qed
qed

lemma path_LocalStorage_getAllWorkspaces: "keeps_path LocalStorage_getAllWorkspaces"
  unfolding LocalStorage_getAllWorkspaces_def
  by (intro path_andThen path_try_catch path_ensureDirectoryHandle path_on_world path_lift
      path_throw)

lemma path_LocalStorage_exportData: "keeps_path LocalStorage_exportData"
  unfolding LocalStorage_exportData_def
  by (intro path_andThen path_try_catch path_LocalStorage_getAllWorkspaces
      path_ensureDirectoryHandle path_on_world path_lift path_throw)
     (simp add: keeps_path_def lift_def)

lemma same_object_refl [simp]: "same_object p p"
  by (cases p) simp_all

lemma provider_exportData_object:
  "provider_exportData (p, w) = (r, (p', w')) \<Longrightarrow> same_object p' p"
  unfolding provider_exportData_def
  by (erule dispatch_same_object [rotated])
     (use keeps_pathD [OF path_LocalStorage_exportData] in auto)

lemma StorageManager_exportData_manager:
  assumes "StorageManager_exportData (m, w) = (r, (m1, w1))"
  shows "config m1 = config m \<and> same_object (provider m1) (provider m)
           \<and> same_object (fallbackProvider m1) (fallbackProvider m)"
proof -
  obtain r1 p1 wa where primary: "provider_exportData (provider m, w) = (r1, (p1, wa))"
    by (metis prod.collapse)
  note p1 = provider_exportData_object [OF primary]
  show ?thesis
  proof (cases r1)
    case (Inr v)
    with assms primary p1 show ?thesis
      by (auto simp: StorageManager_exportData_def executeWithFallback_run on_provider_def)
  next
    case (Inl e)
    obtain r2 p2 wb where fallback: "provider_exportData (fallbackProvider m, wa) = (r2, (p2, wb))"
      by (metis prod.collapse)
    note p2 = provider_exportData_object [OF fallback]
    from Inl assms primary fallback p1 p2 show ?thesis
      by (auto simp: StorageManager_exportData_def executeWithFallback_run on_provider_def
          on_fallback_def)
  qed
qed

text \<open>
  Claim C6. When the provider that \<open>migrateData\<close> constructs for the target reports
  \<open>isAvailable()\<close> false, \<open>migrateData\<close> throws \<open>Target storage provider is not available\<close>,
  nothing has been written anywhere (no import took place), and the manager keeps its active
  provider and its stored configuration. When the target is available, the manager is
  switched to it only once the import has returned: an import that throws leaves the
  manager as it was.
\<close>

theorem migrateData_checks_target_first:
  assumes "StorageManager_exportData (m, w) = (Inr exported, (m1, w1))"
    and "createProvider targetConfig = Inr newProvider"
    and "provider_isAvailable (newProvider, w1) = (Inr available, (p2, w2))"
  shows "migrateData targetConfig (m, w) =
     (if \<not> available
      then (Inl (new_Error ''Target storage provider is not available''), (m1, w))
      else (case provider_importData exported (p2, w) of
              (Inl e, (p3, w3)) \<Rightarrow> (Inl e, (m1, w3))
            | (Inr u, (p3, w3)) \<Rightarrow> (Inr (), (m1\<lparr>config := targetConfig, provider := p3\<rparr>, w3))))
    \<and> config m1 = config m
    \<and> same_object (provider m1) (provider m)"
proof -
  from assms(1) have w1: "w1 = w" by (rule StorageManager_exportData_world)
  from assms(3) have w2: "w2 = w1" by (rule provider_isAvailable_world)
  from migrateData_run [OF assms] w1 w2
    StorageManager_exportData_manager [OF assms(1)]
  show ?thesis by simp
qed

lemmas browser_defs =
  BrowserStorage_isAvailable_def BrowserStorage_saveWorkspace_def BrowserStorage_getWorkspace_def
  BrowserStorage_savePage_def BrowserStorage_getPage_def BrowserStorage_deletePage_def
  BrowserStorage_getAllWorkspaces_def BrowserStorage_clearAll_def BrowserStorage_exportData_def
  BrowserStorage_importData_def stringify_text_def error_string_def startsWith_def

lemmas webdav_defs =
  WebDAVStorage_isAvailable_def WebDAVStorage_testConnection_def WebDAVStorage_saveWorkspace_def
  WebDAVStorage_getWorkspace_def WebDAVStorage_getAllWorkspaces_def WebDAVStorage_savePage_def
  WebDAVStorage_getPage_def WebDAVStorage_deletePage_def WebDAVStorage_clearAll_def
  WebDAVStorage_exportData_def WebDAVStorage_importData_def makeRequest_def fetch_def is_ok_def
  strip_slash_def parse_data_def error_or_unknown_def commonWorkspaceIds_def page_path_def
  stringify_text_def startsWith_def

lemmas provider_defs =
  dispatch_def provider_isAvailable_def provider_saveWorkspace_def provider_getWorkspace_def
  provider_savePage_def provider_getPage_def provider_deletePage_def
  provider_getAllWorkspaces_def provider_clearAll_def provider_exportData_def
  provider_importData_def

lemmas manager_defs =
  on_provider_def on_fallback_def on_object_def createProvider_def
  StorageManager_saveWorkspace_def StorageManager_getWorkspace_def StorageManager_savePage_def
  StorageManager_getPage_def StorageManager_deletePage_def StorageManager_getAllWorkspaces_def
  StorageManager_clearAll_def StorageManager_exportData_def StorageManager_importData_def
  executeWithFallback_run


text \<open>
  The witness: a manager on the browser store is asked to migrate to a WebDAV server. When
  the server cannot be reached, nothing is imported and the manager stays on the browser
  store. When the server is reached and the import into it throws (it refuses the \<open>GET\<close> of
  a workspace), the manager stays on the browser store as well.
\<close>

theorem migrateData_checks_target_first_witness:
  "StorageManager_exportData (manager0, world0\<lparr>online := False\<rparr>)
       = (Inr (JsonText (TObj [])), (manager0, world0\<lparr>online := False\<rparr>))
   \<and> createProvider webdav_storage_config = Inr (WebDAVStorage dav_config)
   \<and> provider_isAvailable (WebDAVStorage dav_config, world0\<lparr>online := False\<rparr>)
       = (Inr False, (WebDAVStorage dav_config, world0\<lparr>online := False\<rparr>))
   \<and> migrateData webdav_storage_config (manager0, world0\<lparr>online := False\<rparr>)
       = (Inl (new_Error ''Target storage provider is not available''),
          (manager0, world0\<lparr>online := False\<rparr>))
   \<and> StorageManager_exportData (manager0, world0\<lparr>refused := [(''GET'', workspace_url dav_config ''default'')]\<rparr>)
       = (Inr (JsonText (TObj [])),
          (manager0, world0\<lparr>refused := [(''GET'', workspace_url dav_config ''default'')]\<rparr>))
   \<and> provider_isAvailable
         (WebDAVStorage dav_config, world0\<lparr>refused := [(''GET'', workspace_url dav_config ''default'')]\<rparr>)
       = (Inr True,
          (WebDAVStorage dav_config, world0\<lparr>refused := [(''GET'', workspace_url dav_config ''default'')]\<rparr>))
   \<and> provider_importData (JsonText (TObj []))
         (WebDAVStorage dav_config, world0\<lparr>refused := [(''GET'', workspace_url dav_config ''default'')]\<rparr>)
       = (Inl (new_Error ''Failed to get workspace: Unknown error''),
          (WebDAVStorage dav_config, world0\<lparr>refused := [(''GET'', workspace_url dav_config ''default'')]\<rparr>))
   \<and> migrateData webdav_storage_config
         (manager0, world0\<lparr>refused := [(''GET'', workspace_url dav_config ''default'')]\<rparr>)
       = (Inl (new_Error ''Failed to get workspace: Unknown error''),
          (manager0, world0\<lparr>refused := [(''GET'', workspace_url dav_config ''default'')]\<rparr>))"
proof -
  let ?off = "world0\<lparr>online := False\<rparr>"
  let ?ref = "world0\<lparr>refused := [(''GET'', workspace_url dav_config ''default'')]\<rparr>"
  have export: "StorageManager_exportData (manager0, ?off) = (Inr (JsonText (TObj [])), (manager0, ?off))"
    by (simp add: manager_defs provider_defs browser_defs action_defs lf_defs manager0_def
        world0_def)
  have create: "createProvider webdav_storage_config = Inr (WebDAVStorage dav_config)"
    by (simp add: createProvider_def webdav_storage_config_def)
  have unavailable: "provider_isAvailable (WebDAVStorage dav_config, ?off)
       = (Inr False, (WebDAVStorage dav_config, ?off))"
    by (simp add: provider_defs webdav_defs action_defs world0_def)
  have export': "StorageManager_exportData (manager0, ?ref) = (Inr (JsonText (TObj [])), (manager0, ?ref))"
    by (simp add: manager_defs provider_defs browser_defs action_defs lf_defs manager0_def
        world0_def)
  have available: "provider_isAvailable (WebDAVStorage dav_config, ?ref)
       = (Inr True, (WebDAVStorage dav_config, ?ref))"
    by (simp add: provider_defs webdav_defs action_defs world0_def workspace_url_def dav_config_def)
  have import: "provider_importData (JsonText (TObj [])) (WebDAVStorage dav_config, ?ref)
       = (Inl (new_Error ''Failed to get workspace: Unknown error''), (WebDAVStorage dav_config, ?ref))"
    by (simp add: provider_defs webdav_defs action_defs world0_def workspace_url_def dav_config_def)
  from migrateData_checks_target_first [OF export create unavailable]
  have first: "migrateData webdav_storage_config (manager0, ?off)
       = (Inl (new_Error ''Target storage provider is not available''), (manager0, ?off))"
    by simp
  from migrateData_checks_target_first [OF export' create available] import
  have second: "migrateData webdav_storage_config (manager0, ?ref)
       = (Inl (new_Error ''Failed to get workspace: Unknown error''), (manager0, ?ref))"
    by simp
  from export create unavailable first export' available import second show ?thesis
    by (intro conjI)
qed



subsection \<open>Reading what is not there\<close>

lemma makeRequest_never_throws: "\<exists>r w'. makeRequest dav path method c w = (Inr r, w')"
  by (simp add: makeRequest_def split: prod.splits fetched.splits body.splits)

lemma makeRequest_404:
  assumes "fetch method (strip_slash (url dav) @ path) content w = (Response 404 is_json b, w')"
    and "is_json \<longrightarrow> (\<exists>j. b = JsonText j)"
  shows "\<exists>r. makeRequest dav path method content w = (Inr r, w') \<and> \<not> ok r \<and> status r = 404"
  using assms by (auto simp: makeRequest_def is_ok_def)

lemma makeRequest_404_not_ok:
  assumes "fetch method (strip_slash (url dav) @ path) content w = (Response 404 is_json b, w')"
  shows "\<exists>r. makeRequest dav path method content w = (Inr r, w') \<and> \<not> ok r"
  using assms by (auto simp: makeRequest_def is_ok_def split: body.splits)

lemma truthy_get_prop: "truthy v \<Longrightarrow> \<exists>x. get_prop v k = Inr x"
  by (cases v) simp_all

lemma WebDAVStorage_getWorkspace_world:
  "WebDAVStorage_getWorkspace dav i w = (r, w') \<Longrightarrow> w' = w"
  by (rule readonlyD [OF readonly_WebDAVStorage_getWorkspace])

lemma probe_workspaces_truthy:
  "probe_workspaces dav ids w = (Inr wss, w') \<Longrightarrow> \<forall>x \<in> set wss. truthy x"
proof (induction ids arbitrary: wss w w')
  case Nil
  then show ?case by (simp add: ret_def)
next
  case (Cons i ids)
  from Cons.prems obtain v w1 rest where
    rest: "probe_workspaces dav ids w1 = (Inr rest, w')"
    and wss: "wss = (if truthy v then v # rest else rest)"
    by (auto simp: andThen_def ret_def split: prod.splits sum.splits)
  from Cons.IH [OF rest] wss show ?case by auto
qed

lemma WebDAVStorage_getAllWorkspaces_truthy:
  "WebDAVStorage_getAllWorkspaces dav w = (Inr wss, w') \<Longrightarrow> \<forall>x \<in> set wss. truthy x"
  by (auto simp: WebDAVStorage_getAllWorkspaces_def andThen_def throw_def
      split: prod.splits sum.splits if_splits dest: probe_workspaces_truthy)

lemma WebDAVStorage_getAllWorkspaces_world:
  "WebDAVStorage_getAllWorkspaces dav w = (r, w') \<Longrightarrow> w' = w"
  by (rule readonlyD [OF readonly_WebDAVStorage_getAllWorkspaces])

lemma probe_pages_absent:
  assumes "\<forall>x \<in> set wss. truthy x"
    and "\<forall>x \<in> set wss. \<exists>is_json b.
           fetch ''GET'' (page_url dav x pageId) None w = (Response 404 is_json b, w)"
  shows "probe_pages dav pageId wss w = (Inr JNull, w)"
  using assms
proof (induction wss)
  case Nil
  then show ?case by (simp add: ret_def)
next
  case (Cons x wss)
  from Cons.prems(1) obtain wid where wid: "get_prop x ''id'' = Inr wid"
    using truthy_get_prop [of x "''id''"] by auto
  from Cons.prems(2) wid obtain is_json b where
    "fetch ''GET'' (strip_slash (url dav) @ page_path wid pageId) None w = (Response 404 is_json b, w)"
    by (auto simp: page_url_def)
  from makeRequest_404_not_ok [OF this] obtain r where
    "makeRequest dav (page_path wid pageId) ''GET'' None w = (Inr r, w)" and "\<not> ok r"
    by auto
  with wid Cons show ?case
    by (simp add: andThen_def lift_def)
qed

text \<open>
  Where reading what is absent gives \<open>null\<close>. \<open>getWorkspace(id)\<close> and \<open>getPage(id)\<close> of
  \<open>BrowserStorage\<close> and of \<open>LocalStorage\<close> return \<open>null\<close> and do not throw when the backing
  store reports the resource absent: \<open>localforage\<close> resolves to \<open>null\<close>, the file lookup
  of the granted directory throws \<open>NotFoundError\<close>. \<open>getWorkspace\<close> of \<open>WebDAVStorage\<close>
  returns \<open>null\<close> when the server answers 404 and the body of the answer is not labelled
  \<open>application/json\<close>, or is and parses; \<open>getPage\<close> of \<open>WebDAVStorage\<close> returns \<open>null\<close>
  when the listing returns and the server answers 404 to the page's URL under every
  workspace of the listing, whatever the label and the body of these answers.
\<close>

lemma absent_reads_null:
  "(lf_getItem (''workspace_'' @ workspaceId) w = (Inr JNull, w')
      \<longrightarrow> BrowserStorage_getWorkspace workspaceId w = (Inr JNull, w'))
   \<and> (lf_getItem (''page_'' @ pageId) w = (Inr JNull, w')
      \<longrightarrow> BrowserStorage_getPage pageId w = (Inr JNull, w'))
   \<and> (ensureDirectoryHandle (l, w) = (Inr (), (l1, w1))
        \<and> getFileHandle (''workspace-'' @ workspaceId @ ''.json'') False w1 = (Inl NotFoundError, w')
      \<longrightarrow> LocalStorage_getWorkspace workspaceId (l, w) = (Inr JNull, (l1, w')))
   \<and> (ensureDirectoryHandle (l, w) = (Inr (), (l1, w1))
        \<and> getFileHandle (''page-'' @ pageId @ ''.json'') False w1 = (Inl NotFoundError, w')
      \<longrightarrow> LocalStorage_getPage pageId (l, w) = (Inr JNull, (l1, w')))
   \<and> (fetch ''GET'' (workspace_url dav workspaceId) None w = (Response 404 is_json b, w')
        \<and> (is_json \<longrightarrow> (\<exists>j. b = JsonText j))
      \<longrightarrow> WebDAVStorage_getWorkspace dav workspaceId w = (Inr JNull, w'))
   \<and> (WebDAVStorage_getAllWorkspaces dav w = (Inr wss, w')
        \<and> (\<forall>x \<in> set wss. \<exists>is_json b.
              fetch ''GET'' (page_url dav x pageId) None w = (Response 404 is_json b, w))
      \<longrightarrow> WebDAVStorage_getPage dav pageId w = (Inr JNull, w))"
proof (intro conjI impI)
  assume "lf_getItem (''workspace_'' @ workspaceId) w = (Inr JNull, w')"
  then show "BrowserStorage_getWorkspace workspaceId w = (Inr JNull, w')"
    by (simp add: BrowserStorage_getWorkspace_def try_catch_def)
next
  assume "lf_getItem (''page_'' @ pageId) w = (Inr JNull, w')"
  then show "BrowserStorage_getPage pageId w = (Inr JNull, w')"
    by (simp add: BrowserStorage_getPage_def try_catch_def)
next
  assume "ensureDirectoryHandle (l, w) = (Inr (), (l1, w1))
        \<and> getFileHandle (''workspace-'' @ workspaceId @ ''.json'') False w1 = (Inl NotFoundError, w')"
  then show "LocalStorage_getWorkspace workspaceId (l, w) = (Inr JNull, (l1, w'))"
    by (simp add: LocalStorage_getWorkspace_def action_defs NotFoundError_def)
next
  assume "ensureDirectoryHandle (l, w) = (Inr (), (l1, w1))
        \<and> getFileHandle (''page-'' @ pageId @ ''.json'') False w1 = (Inl NotFoundError, w')"
  then show "LocalStorage_getPage pageId (l, w) = (Inr JNull, (l1, w'))"
    by (simp add: LocalStorage_getPage_def action_defs NotFoundError_def)
next
  assume a: "fetch ''GET'' (workspace_url dav workspaceId) None w = (Response 404 is_json b, w')
        \<and> (is_json \<longrightarrow> (\<exists>j. b = JsonText j))"
  then have "fetch ''GET'' (strip_slash (url dav) @ ''/workspace-'' @ workspaceId @ ''.json'') None w
      = (Response 404 is_json b, w')"
    by (simp add: workspace_url_def)
  from makeRequest_404 [OF this] a obtain r where
    "makeRequest dav (''/workspace-'' @ workspaceId @ ''.json'') ''GET'' None w = (Inr r, w')"
    and "\<not> ok r" and "status r = 404"
    by auto
  then show "WebDAVStorage_getWorkspace dav workspaceId w = (Inr JNull, w')"
    by (simp add: WebDAVStorage_getWorkspace_def andThen_def ret_def)
next
  assume a: "WebDAVStorage_getAllWorkspaces dav w = (Inr wss, w')
        \<and> (\<forall>x \<in> set wss. \<exists>is_json b.
              fetch ''GET'' (page_url dav x pageId) None w = (Response 404 is_json b, w))"
  then have w': "w' = w" by (auto dest: WebDAVStorage_getAllWorkspaces_world)
  from a have "\<forall>x \<in> set wss. truthy x" by (auto dest: WebDAVStorage_getAllWorkspaces_truthy)
  from probe_pages_absent [OF this] a w'
  show "WebDAVStorage_getPage dav pageId w = (Inr JNull, w)"
    by (simp add: WebDAVStorage_getPage_def andThen_def)
qed


lemmas fs_defs =
  showDirectoryPicker_def getFileHandle_def write_file_def read_file_def removeEntry_def
  entries_def valid_file_name_def NotFoundError_def NotAllowedError_def AbortError_def
  TypeMismatchError_def

lemmas local_defs =
  LocalStorage_isAvailable_def ensureDirectoryHandle_def LocalStorage_saveWorkspace_def
  LocalStorage_getWorkspace_def LocalStorage_savePage_def LocalStorage_getPage_def
  LocalStorage_deletePage_def LocalStorage_getAllWorkspaces_def LocalStorage_clearAll_def
  LocalStorage_exportData_def LocalStorage_importData_def is_data_file_def stringify_text_def
  startsWith_def endsWith_def

text \<open>
  An instance: nothing is in the browser store or in the directory, and the server holds
  the workspace \<open>default\<close> and no page. The workspace \<open>other\<close> and the page \<open>p9\<close> are read.
\<close>

lemma absent_reads_null_instance:
  "lf_getItem (''workspace_'' @ ''other'') dav_world = (Inr JNull, dav_world)
   \<and> BrowserStorage_getWorkspace ''other'' dav_world = (Inr JNull, dav_world)
   \<and> lf_getItem (''page_'' @ ''p9'') dav_world = (Inr JNull, dav_world)
   \<and> BrowserStorage_getPage ''p9'' dav_world = (Inr JNull, dav_world)
   \<and> ensureDirectoryHandle (new_LocalStorage ''/tmp/notes'', dav_world)
       = (Inr (), (\<lparr>basePath = ''/tmp/notes'', directoryHandle = True\<rparr>, dav_world))
   \<and> getFileHandle (''workspace-'' @ ''other'' @ ''.json'') False dav_world = (Inl NotFoundError, dav_world)
   \<and> LocalStorage_getWorkspace ''other'' (new_LocalStorage ''/tmp/notes'', dav_world)
       = (Inr JNull, (\<lparr>basePath = ''/tmp/notes'', directoryHandle = True\<rparr>, dav_world))
   \<and> getFileHandle (''page-'' @ ''p9'' @ ''.json'') False dav_world = (Inl NotFoundError, dav_world)
   \<and> LocalStorage_getPage ''p9'' (new_LocalStorage ''/tmp/notes'', dav_world)
       = (Inr JNull, (\<lparr>basePath = ''/tmp/notes'', directoryHandle = True\<rparr>, dav_world))
   \<and> fetch ''GET'' (workspace_url dav_config ''other'') None dav_world
       = (Response 404 False (OtherText ''Not Found''), dav_world)
   \<and> WebDAVStorage_getWorkspace dav_config ''other'' dav_world = (Inr JNull, dav_world)
   \<and> WebDAVStorage_getAllWorkspaces dav_config dav_world
       = (Inr [json_image (js_of_workspace workspace0)], dav_world)
   \<and> fetch ''GET'' (page_url dav_config (json_image (js_of_workspace workspace0)) ''p9'') None dav_world
       = (Response 404 False (OtherText ''Not Found''), dav_world)
   \<and> WebDAVStorage_getPage dav_config ''p9'' dav_world = (Inr JNull, dav_world)"
proof -
  have h1: "lf_getItem (''workspace_'' @ ''other'') dav_world = (Inr JNull, dav_world)"
    by (simp add: lf_defs dav_world_def world0_def)
  have h2: "lf_getItem (''page_'' @ ''p9'') dav_world = (Inr JNull, dav_world)"
    by (simp add: lf_defs dav_world_def world0_def)
  have h3: "ensureDirectoryHandle (new_LocalStorage ''/tmp/notes'', dav_world)
       = (Inr (), (\<lparr>basePath = ''/tmp/notes'', directoryHandle = True\<rparr>, dav_world))"
    by (simp add: local_defs fs_defs action_defs new_LocalStorage_def dav_world_def world0_def)
  have h4: "getFileHandle (''workspace-'' @ ''other'' @ ''.json'') False dav_world = (Inl NotFoundError, dav_world)"
    by (simp add: getFileHandle_def valid_file_name_def dav_world_def world0_def)
  have h5: "getFileHandle (''page-'' @ ''p9'' @ ''.json'') False dav_world = (Inl NotFoundError, dav_world)"
    by (simp add: getFileHandle_def valid_file_name_def dav_world_def world0_def)
  have h6: "fetch ''GET'' (workspace_url dav_config ''other'') None dav_world
       = (Response 404 False (OtherText ''Not Found''), dav_world)"
    by (simp add: fetch_def workspace_url_def strip_slash_def dav_config_def dav_world_def world0_def)
  have h7: "WebDAVStorage_getAllWorkspaces dav_config dav_world
       = (Inr [json_image (js_of_workspace workspace0)], dav_world)"
    by (simp add: webdav_defs action_defs dav_config_def dav_world_def world0_def workspace0_def
        page0_def json_image_def)
  have h8: "fetch ''GET'' (page_url dav_config (json_image (js_of_workspace workspace0)) ''p9'') None dav_world
       = (Response 404 False (OtherText ''Not Found''), dav_world)"
    by (simp add: fetch_def page_url_def page_path_def strip_slash_def dav_config_def dav_world_def
        world0_def workspace0_def page0_def json_image_def)
  from h8 have h9: "\<forall>x \<in> set [json_image (js_of_workspace workspace0)].
      \<exists>is_json b. fetch ''GET'' (page_url dav_config x ''p9'') None dav_world
        = (Response 404 is_json b, dav_world)"
    by auto
  from absent_reads_null [of "''other''" dav_world dav_world "''p9''" "new_LocalStorage ''/tmp/notes''"
      "\<lparr>basePath = ''/tmp/notes'', directoryHandle = True\<rparr>" dav_world dav_config
      False "OtherText ''Not Found''" "[json_image (js_of_workspace workspace0)]"]
    h1 h2 h3 h4 h5 h6 h7 h9
  have "BrowserStorage_getWorkspace ''other'' dav_world = (Inr JNull, dav_world)
   \<and> BrowserStorage_getPage ''p9'' dav_world = (Inr JNull, dav_world)
   \<and> LocalStorage_getWorkspace ''other'' (new_LocalStorage ''/tmp/notes'', dav_world)
       = (Inr JNull, (\<lparr>basePath = ''/tmp/notes'', directoryHandle = True\<rparr>, dav_world))
   \<and> LocalStorage_getPage ''p9'' (new_LocalStorage ''/tmp/notes'', dav_world)
       = (Inr JNull, (\<lparr>basePath = ''/tmp/notes'', directoryHandle = True\<rparr>, dav_world))
   \<and> WebDAVStorage_getWorkspace dav_config ''other'' dav_world = (Inr JNull, dav_world)
   \<and> WebDAVStorage_getPage dav_config ''p9'' dav_world = (Inr JNull, dav_world)"
    by blast
  with h1 h2 h3 h4 h5 h6 h7 h8 show ?thesis by blast
qed

text \<open>
  Claim C8 fails on \<open>WebDAVStorage\<close>, for a server that labels its error pages
  \<open>application/json\<close> and sends a body that is no JSON with them. The server answers 404
  for the workspace \<open>other\<close>, which was never saved. \<open>makeRequest\<close> calls
  \<open>response.json()\<close> whatever the status, inside the \<open>try\<close> whose \<open>catch\<close> answers
  \<open>{ok: false, status: 0}\<close>; so \<open>getWorkspace\<close> sees the status 0 where the server sent
  404, and throws. \<open>getPage\<close> of a page that was never saved throws too, since its
  listing asks for the workspace \<open>main\<close>, which the server does not hold.
\<close>

theorem labelled_404_is_thrown:
  "fetch ''GET'' (workspace_url dav_config ''other'') None dav_world_json_errors
     = (Response 404 True (OtherText ''Not Found''), dav_world_json_errors)
   \<and> WebDAVStorage_getWorkspace dav_config ''other'' dav_world_json_errors
     = (Inl (new_Error (''Failed to get workspace: '' @ message SyntaxError)), dav_world_json_errors)
   \<and> WebDAVStorage_getPage dav_config ''p9'' dav_world_json_errors
     = (Inl (new_Error (''Failed to get workspace: '' @ message SyntaxError)), dav_world_json_errors)"
  by (simp add: webdav_defs action_defs workspace_url_def dav_config_def dav_world_json_errors_def
      dav_world_def world0_def workspace0_def page0_def SyntaxError_def)

subsection \<open>Deleting a page\<close>

lemma BrowserStorage_deletePage_run:
  "BrowserStorage_deletePage pageId w =
     (if lf_broken w
      then (Inl (new_Error (''Failed to delete page: '' @ error_string lf_error)), w)
      else (Inr (), w\<lparr>lf_items := AList.delete (''page_'' @ pageId) (lf_items w)\<rparr>))"
  by (simp add: BrowserStorage_deletePage_def try_catch_def throw_def lf_removeItem_def)

lemma delete_absent: "map_of al k = None \<Longrightarrow> AList.delete k al = al"
  by (induction al) (auto split: if_splits)

lemma removeEntry_cases:
  "removeEntry n w =
     (if \<not> valid_file_name n then (Inl TypeError, w)
      else if \<not> fs_writable w then (Inl NotAllowedError, w)
      else if map_of (dir_entries w) n = None then (Inl NotFoundError, w)
      else (Inr (), w\<lparr>dir_entries := AList.delete n (dir_entries w)\<rparr>))"
  by (simp add: removeEntry_def split: option.splits)

lemma error_names [simp]:
  "name TypeError \<noteq> ''NotFoundError''" "name NotAllowedError \<noteq> ''NotFoundError''"
  "name NotFoundError = ''NotFoundError''"
  by (simp_all add: TypeError_def NotAllowedError_def NotFoundError_def)

lemma ensureDirectoryHandle_again:
  "ensureDirectoryHandle s = (Inr (), s1) \<Longrightarrow> ensureDirectoryHandle (fst s1, w) = (Inr (), (fst s1, w))"
  by (auto simp: ensureDirectoryHandle_def andThen_def on_world_def
      split: if_splits prod.splits sum.splits)

lemma LocalStorage_deletePage_twice:
  assumes "LocalStorage_deletePage pageId s = (Inr (), s1)"
  shows "LocalStorage_deletePage pageId s1 = (Inr (), s1)"
proof -
  let ?n = "''page-'' @ pageId @ ''.json''"
  from assms obtain s0 where ensure: "ensureDirectoryHandle s = (Inr (), s0)"
    and rest: "try_catch (on_world (removeEntry ?n))
        (\<lambda>error. if name error = ''NotFoundError'' then ret ()
                  else throw (new_Error (''Failed to delete page: '' @ message error))) s0 = (Inr (), s1)"
    by (auto simp: LocalStorage_deletePage_def andThen_def split: prod.splits sum.splits)
  from rest have facts: "valid_file_name ?n \<and> fs_writable (snd s1)
      \<and> map_of (dir_entries (snd s1)) ?n = None \<and> fst s1 = fst s0"
    by (auto simp: try_catch_def on_world_def removeEntry_cases ret_def throw_def
        AList.delete_conv' split: if_splits)
  from ensureDirectoryHandle_again [OF ensure, of "snd s1"] facts
  have "ensureDirectoryHandle s1 = (Inr (), s1)" by (cases s1) simp
  with facts show ?thesis
    by (cases s1)
       (simp add: LocalStorage_deletePage_def andThen_def try_catch_def on_world_def
         removeEntry_cases ret_def)
qed

lemma last_page_url: "last (page_url dav x pageId) \<noteq> CHR ''/''"
  by (simp add: page_url_def page_path_def)

lemma makeRequest_DELETE_absent:
  assumes "u = strip_slash (url dav) @ path" and "u \<notin> fst ` set (resources w)"
    and "last u \<noteq> CHR ''/''"
  shows "\<exists>r. makeRequest dav path ''DELETE'' None w = (Inr r, w) \<and> \<not> ok r"
  using assms by (auto simp: makeRequest_def fetch_def is_ok_def split: body.splits)

lemma delete_pages_absent:
  assumes "\<forall>x \<in> set wss. truthy x"
    and "\<forall>x \<in> set wss. page_url dav x pageId \<notin> fst ` set (resources w)"
  shows "delete_pages dav pageId wss w
           = (Inl (new_Error ''Failed to delete page: Page not found''), w)"
  using assms
proof (induction wss)
  case Nil
  then show ?case by (simp add: throw_def)
next
  case (Cons x wss)
  from Cons.prems(1) obtain wid where wid: "get_prop x ''id'' = Inr wid"
    using truthy_get_prop [of x "''id''"] by auto
  then have u: "page_url dav x pageId = strip_slash (url dav) @ page_path wid pageId"
    by (simp add: page_url_def)
  from Cons.prems(2) have "page_url dav x pageId \<notin> fst ` set (resources w)" by simp
  from makeRequest_DELETE_absent [OF u this last_page_url]
  obtain r where "makeRequest dav (page_path wid pageId) ''DELETE'' None w = (Inr r, w)" and "\<not> ok r"
    by blast
  with wid Cons show ?case
    by (simp add: andThen_def lift_def)
qed

text \<open>
  Claim C3, as the code has it. \<open>deletePage\<close> of \<open>BrowserStorage\<close> and of \<open>LocalStorage\<close>
  does not raise on a page that is absent, and a second call on the same id returns without
  error and changes nothing. \<open>deletePage\<close> of \<open>WebDAVStorage\<close> throws
  \<open>Failed to delete page: Page not found\<close> when none of the workspaces it lists has a
  resource for the page.
\<close>

theorem deletePage_of_absent_page:
  "(\<not> lf_broken w \<and> map_of (lf_items w) (''page_'' @ pageId) = None
      \<longrightarrow> BrowserStorage_deletePage pageId w = (Inr (), w))
   \<and> (BrowserStorage_deletePage pageId w = (Inr (), w1)
      \<longrightarrow> BrowserStorage_deletePage pageId w1 = (Inr (), w1))
   \<and> (ensureDirectoryHandle s = (Inr (), s0)
        \<and> removeEntry (''page-'' @ pageId @ ''.json'') (snd s0) = (Inl NotFoundError, w')
      \<longrightarrow> LocalStorage_deletePage pageId s = (Inr (), (fst s0, w')))
   \<and> (LocalStorage_deletePage pageId s = (Inr (), s1)
      \<longrightarrow> LocalStorage_deletePage pageId s1 = (Inr (), s1))
   \<and> (WebDAVStorage_getAllWorkspaces dav w = (Inr wss, w')
        \<and> (\<forall>x \<in> set wss. page_url dav x pageId \<notin> fst ` set (resources w))
      \<longrightarrow> WebDAVStorage_deletePage dav pageId w
            = (Inl (new_Error ''Failed to delete page: Page not found''), w))"
proof (intro conjI impI)
  assume "\<not> lf_broken w \<and> map_of (lf_items w) (''page_'' @ pageId) = None"
  then show "BrowserStorage_deletePage pageId w = (Inr (), w)"
    by (simp add: BrowserStorage_deletePage_run delete_absent)
next
  assume "BrowserStorage_deletePage pageId w = (Inr (), w1)"
  then show "BrowserStorage_deletePage pageId w1 = (Inr (), w1)"
    by (auto simp: BrowserStorage_deletePage_run AList.delete_idem split: if_splits)
next
  assume "ensureDirectoryHandle s = (Inr (), s0)
        \<and> removeEntry (''page-'' @ pageId @ ''.json'') (snd s0) = (Inl NotFoundError, w')"
  then show "LocalStorage_deletePage pageId s = (Inr (), (fst s0, w'))"
    by (simp add: LocalStorage_deletePage_def andThen_def try_catch_def on_world_def ret_def)
next
  assume "LocalStorage_deletePage pageId s = (Inr (), s1)"
  then show "LocalStorage_deletePage pageId s1 = (Inr (), s1)"
    by (rule LocalStorage_deletePage_twice)
next
  assume a: "WebDAVStorage_getAllWorkspaces dav w = (Inr wss, w')
        \<and> (\<forall>x \<in> set wss. page_url dav x pageId \<notin> fst ` set (resources w))"
  then have w': "w' = w" by (auto dest: WebDAVStorage_getAllWorkspaces_world)
  from a have "\<forall>x \<in> set wss. truthy x" by (auto dest: WebDAVStorage_getAllWorkspaces_truthy)
  from delete_pages_absent [OF this] a w'
  show "WebDAVStorage_deletePage dav pageId w
            = (Inl (new_Error ''Failed to delete page: Page not found''), w)"
    by (simp add: WebDAVStorage_deletePage_def andThen_def)
qed

text \<open>
  The witness: the page \<open>p9\<close> is in no store; the server holds the workspace \<open>default\<close>.
\<close>

theorem deletePage_of_absent_page_witness:
  "\<not> lf_broken dav_world \<and> map_of (lf_items dav_world) (''page_'' @ ''p9'') = None
   \<and> BrowserStorage_deletePage ''p9'' dav_world = (Inr (), dav_world)
   \<and> ensureDirectoryHandle (new_LocalStorage ''/tmp/notes'', dav_world)
       = (Inr (), (\<lparr>basePath = ''/tmp/notes'', directoryHandle = True\<rparr>, dav_world))
   \<and> removeEntry (''page-'' @ ''p9'' @ ''.json'') dav_world = (Inl NotFoundError, dav_world)
   \<and> LocalStorage_deletePage ''p9'' (new_LocalStorage ''/tmp/notes'', dav_world)
       = (Inr (), (\<lparr>basePath = ''/tmp/notes'', directoryHandle = True\<rparr>, dav_world))
   \<and> LocalStorage_deletePage ''p9'' (\<lparr>basePath = ''/tmp/notes'', directoryHandle = True\<rparr>, dav_world)
       = (Inr (), (\<lparr>basePath = ''/tmp/notes'', directoryHandle = True\<rparr>, dav_world))
   \<and> WebDAVStorage_getAllWorkspaces dav_config dav_world
       = (Inr [json_image (js_of_workspace workspace0)], dav_world)
   \<and> page_url dav_config (json_image (js_of_workspace workspace0)) ''p9''
       \<notin> fst ` set (resources dav_world)
   \<and> WebDAVStorage_deletePage dav_config ''p9'' dav_world
       = (Inl (new_Error ''Failed to delete page: Page not found''), dav_world)"
proof -
  let ?l = "new_LocalStorage ''/tmp/notes''"
  let ?l1 = "\<lparr>basePath = ''/tmp/notes'', directoryHandle = True\<rparr>"
  let ?ws = "json_image (js_of_workspace workspace0)"
  have h1: "\<not> lf_broken dav_world \<and> map_of (lf_items dav_world) (''page_'' @ ''p9'') = None"
    by (simp add: dav_world_def world0_def)
  have h3: "ensureDirectoryHandle (?l, dav_world) = (Inr (), (?l1, dav_world))"
    by (simp add: local_defs fs_defs action_defs new_LocalStorage_def dav_world_def world0_def)
  have h4: "removeEntry (''page-'' @ ''p9'' @ ''.json'') dav_world = (Inl NotFoundError, dav_world)"
    by (simp add: removeEntry_def valid_file_name_def dav_world_def world0_def)
  have h7: "WebDAVStorage_getAllWorkspaces dav_config dav_world = (Inr [?ws], dav_world)"
    by (simp add: webdav_defs action_defs dav_config_def dav_world_def world0_def workspace0_def
        page0_def json_image_def)
  have h8: "page_url dav_config ?ws ''p9'' \<notin> fst ` set (resources dav_world)"
    by (simp add: page_url_def page_path_def strip_slash_def dav_config_def dav_world_def
        world0_def workspace0_def page0_def json_image_def)
  then have h9: "\<forall>x \<in> set [?ws]. page_url dav_config x ''p9'' \<notin> fst ` set (resources dav_world)"
    by simp
  note inst = deletePage_of_absent_page [of dav_world "''p9''" dav_world "(?l, dav_world)"
      "(?l1, dav_world)" dav_world "(?l1, dav_world)" dav_config "[?ws]"]
  from inst h1 have c1: "BrowserStorage_deletePage ''p9'' dav_world = (Inr (), dav_world)"
    by blast
  from inst h3 h4 have c3: "LocalStorage_deletePage ''p9'' (?l, dav_world) = (Inr (), (?l1, dav_world))"
    by simp
  from inst c3 have c4: "LocalStorage_deletePage ''p9'' (?l1, dav_world) = (Inr (), (?l1, dav_world))"
    by blast
  from inst h7 h9 have c5: "WebDAVStorage_deletePage dav_config ''p9'' dav_world
       = (Inl (new_Error ''Failed to delete page: Page not found''), dav_world)"
    by blast
  from h1 h3 h4 h7 h8 c1 c3 c4 c5 show ?thesis by blast
qed

text \<open>
  Claim C3 fails on \<open>WebDAVStorage\<close>: deleting a page that the server does not hold
  throws, and so does the second of two calls on a page that it held.
\<close>

theorem webdav_deletePage_absent_raises:
  "WebDAVStorage_deletePage dav_config ''p9'' dav_world
     = (Inl (new_Error ''Failed to delete page: Page not found''), dav_world)
   \<and> WebDAVStorage_deletePage dav_config ''p1'' dav_world_page = (Inr (), dav_world)
   \<and> WebDAVStorage_deletePage dav_config ''p1'' dav_world
     = (Inl (new_Error ''Failed to delete page: Page not found''), dav_world)"
  by (simp add: webdav_defs action_defs dav_config_def dav_world_def dav_world_page_def
      world0_def workspace0_def page0_def)

subsection \<open>Listing the workspaces of a WebDAV server\<close>

lemma workspace_url_inj: "workspace_url dav i = workspace_url dav j \<Longrightarrow> i = j"
  by (simp add: workspace_url_def)

lemma WebDAVStorage_getWorkspace_served:
  assumes "WebDAVStorage_getWorkspace dav i w = (Inr v, w')"
  shows "(if truthy v then Some v else None) = served_workspace dav w i"
proof -
  let ?u = "strip_slash (url dav) @ ''/workspace-'' @ i @ ''.json''"
  obtain r w1 where req: "makeRequest dav (''/workspace-'' @ i @ ''.json'') ''GET'' None w = (Inr r, w1)"
    using makeRequest_never_throws by blast
  show ?thesis
  proof (cases "ok r")
    case False
    with assms req have v: "v = JNull" and st: "status r = 404"
      by (auto simp: WebDAVStorage_getWorkspace_def andThen_def ret_def throw_def split: if_splits)
    from req False st have "map_of (resources w) ?u = None"
      by (auto simp: makeRequest_def fetch_def is_ok_def
          split: if_splits option.splits body.splits)
    with v show ?thesis
      by (simp add: served_workspace_def workspace_url_def)
  next
    case True
    with assms req have v: "parse_data (data r) = Inr v"
      by (auto simp: WebDAVStorage_getWorkspace_def andThen_def lift_def)
    from req True obtain b where b: "map_of (resources w) ?u = Some b"
      and d: "(typed_json w \<and> (\<exists>j. b = JsonText j \<and> data r = Some (Parsed (parse_json j))))
              \<or> (\<not> typed_json w \<and> data r = Some (Text b))"
      by (auto simp: makeRequest_def fetch_def is_ok_def
          split: if_splits option.splits body.splits)
    from d have "body_value (typed_json w) b = Inr v"
    proof
      assume "typed_json w \<and> (\<exists>j. b = JsonText j \<and> data r = Some (Parsed (parse_json j)))"
      then obtain j where "typed_json w" and "b = JsonText j"
        and "data r = Some (Parsed (parse_json j))"
        by auto
      with v show ?thesis
        by (cases "parse_json j") (auto simp: body_value_def parse_data_def)
    next
      assume "\<not> typed_json w \<and> data r = Some (Text b)"
      with v show ?thesis
        by (cases "JSON_parse b") (simp_all add: body_value_def parse_data_def)
    qed
    with b show ?thesis
      by (simp add: served_workspace_def workspace_url_def)
  qed
qed

lemma probe_workspaces_served:
  "probe_workspaces dav ids w = (Inr wss, w') \<Longrightarrow> wss = List.map_filter (served_workspace dav w) ids"
proof (induction ids arbitrary: wss)
  case Nil
  then show ?case by (simp add: ret_def List.map_filter_simps)
next
  case (Cons i ids)
  from Cons.prems obtain v w1 rest where
    first: "WebDAVStorage_getWorkspace dav i w = (Inr v, w1)"
    and rest: "probe_workspaces dav ids w1 = (Inr rest, w')"
    and wss: "wss = (if truthy v then v # rest else rest)"
    by (auto simp: andThen_def ret_def split: prod.splits sum.splits)
  from first have "w1 = w" by (rule WebDAVStorage_getWorkspace_world)
  with rest Cons.IH have "rest = List.map_filter (served_workspace dav w) ids" by simp
  with wss WebDAVStorage_getWorkspace_served [OF first, symmetric] show ?case
    by (auto simp: List.map_filter_simps split: if_splits)
qed

lemma WebDAVStorage_getAllWorkspaces_served:
  "WebDAVStorage_getAllWorkspaces dav w = (Inr wss, w')
     \<Longrightarrow> wss = List.map_filter (served_workspace dav w) commonWorkspaceIds"
  by (auto simp: WebDAVStorage_getAllWorkspaces_def andThen_def throw_def
      split: prod.splits sum.splits if_splits
      dest: probe_workspaces_served readonlyD [OF readonly_makeRequest_PROPFIND])

text \<open>What the listing answers depends on the server's resources only at the three URLs.\<close>

lemma fetch_GET_other_resource:
  assumes "u \<noteq> u'"
  shows "fst (fetch ''GET'' u' c (w\<lparr>resources := AList.update u b (resources w)\<rparr>))
           = fst (fetch ''GET'' u' c w)"
  using assms by (simp add: fetch_def update_conv' split: option.splits)

lemma WebDAVStorage_getWorkspace_other_resource:
  assumes "u \<noteq> workspace_url dav i"
  shows "fst (WebDAVStorage_getWorkspace dav i (w\<lparr>resources := AList.update u b (resources w)\<rparr>))
           = fst (WebDAVStorage_getWorkspace dav i w)"
  using assms
  by (simp add: WebDAVStorage_getWorkspace_def makeRequest_def fetch_def andThen_def ret_def
      throw_def lift_def workspace_url_def update_conv'
      split: option.splits body.splits)

lemma probe_workspaces_other_resource:
  assumes "\<forall>i \<in> set ids. u \<noteq> workspace_url dav i"
  shows "fst (probe_workspaces dav ids (w\<lparr>resources := AList.update u b (resources w)\<rparr>))
           = fst (probe_workspaces dav ids w)"
  using assms
proof (induction ids)
  case Nil
  then show ?case by (simp add: ret_def)
next
  case (Cons i ids)
  let ?w2 = "w\<lparr>resources := AList.update u b (resources w)\<rparr>"
  obtain r1 where r1: "WebDAVStorage_getWorkspace dav i w = (r1, w)"
    using WebDAVStorage_getWorkspace_world by (metis prod.collapse)
  obtain r2 where r2: "WebDAVStorage_getWorkspace dav i ?w2 = (r2, ?w2)"
    using WebDAVStorage_getWorkspace_world by (metis prod.collapse)
  from Cons.prems WebDAVStorage_getWorkspace_other_resource [where u = u and dav = dav and i = i and w = w and b = b] r1 r2
  have same: "r2 = r1" by simp
  obtain q1 where q1: "probe_workspaces dav ids w = (q1, w)"
    using readonlyD [OF readonly_probe_workspaces] by (metis prod.collapse)
  obtain q2 where q2: "probe_workspaces dav ids ?w2 = (q2, ?w2)"
    using readonlyD [OF readonly_probe_workspaces] by (metis prod.collapse)
  from Cons q1 q2 have "q2 = q1" by simp
  with same r1 r2 q1 q2 show ?case
    by (simp add: andThen_def ret_def split: sum.splits)
qed

lemma WebDAVStorage_getAllWorkspaces_other_resource:
  assumes "\<forall>i \<in> set commonWorkspaceIds. u \<noteq> workspace_url dav i"
  shows "fst (WebDAVStorage_getAllWorkspaces dav (w\<lparr>resources := AList.update u b (resources w)\<rparr>))
           = fst (WebDAVStorage_getAllWorkspaces dav w)"
proof -
  let ?w2 = "w\<lparr>resources := AList.update u b (resources w)\<rparr>"
  define r where "r = fst (makeRequest dav ''/'' ''PROPFIND'' (Some propfind_body) w)"
  have r2: "makeRequest dav ''/'' ''PROPFIND'' (Some propfind_body) ?w2 = (r, ?w2)"
    by (simp add: r_def makeRequest_def fetch_def split: body.splits)
  have r1: "makeRequest dav ''/'' ''PROPFIND'' (Some propfind_body) w = (r, w)"
    by (simp add: r_def makeRequest_def fetch_def split: body.splits)
  from r1 r2 probe_workspaces_other_resource [OF assms, where w = w and b = b]
  show ?thesis
    by (cases r) (simp_all add: WebDAVStorage_getAllWorkspaces_def andThen_def throw_def)
qed

text \<open>
  Claim C4, as the code has it. Whenever \<open>getAllWorkspaces\<close> of \<open>WebDAVStorage\<close> returns, it
  leaves the server as it was and returns, in this order, the values that the server
  serves at \<open>/workspace-default.json\<close>, \<open>/workspace-main.json\<close> and
  \<open>/workspace-primary.json\<close>: each is in the result exactly when the \<open>GET\<close> of its URL is
  answered with a truthy value. A workspace stored at \<open>/workspace-<id>.json\<close> for any other
  id is never read: storing one changes nothing in the result. The \<open>id\<close> of a returned
  object is not looked at; it is one of the three when each of the three documents carries
  the id of its URL, as \<open>saveWorkspace\<close> writes it.
\<close>

theorem webdav_lists_common_urls:
  assumes "WebDAVStorage_getAllWorkspaces dav w = (Inr wss, w')"
  shows "w' = w
    \<and> wss = List.map_filter (served_workspace dav w) [''default'', ''main'', ''primary'']
    \<and> (\<forall>x. x \<in> set wss \<longleftrightarrow>
          (\<exists>i \<in> {''default'', ''main'', ''primary''}. served_workspace dav w i = Some x))
    \<and> (\<forall>i b. i \<notin> {''default'', ''main'', ''primary''} \<longrightarrow>
          fst (WebDAVStorage_getAllWorkspaces dav
                 (w\<lparr>resources := AList.update (workspace_url dav i) b (resources w)\<rparr>)) = Inr wss)
    \<and> ((\<forall>i \<in> {''default'', ''main'', ''primary''}. \<forall>x.
            served_workspace dav w i = Some x \<longrightarrow> get_prop x ''id'' = Inr (JStr i))
         \<longrightarrow> (\<forall>x \<in> set wss. \<exists>i \<in> {''default'', ''main'', ''primary''}.
                get_prop x ''id'' = Inr (JStr i)))"
proof -
  from assms have same: "w' = w"
    by (rule WebDAVStorage_getAllWorkspaces_world)
  from WebDAVStorage_getAllWorkspaces_served [OF assms]
  have wss: "wss = List.map_filter (served_workspace dav w) [''default'', ''main'', ''primary'']"
    by (simp add: commonWorkspaceIds_def)
  then have mem: "\<forall>x. x \<in> set wss \<longleftrightarrow>
          (\<exists>i \<in> {''default'', ''main'', ''primary''}. served_workspace dav w i = Some x)"
    by (auto simp: List.map_filter_simps split: option.splits)
  have other: "\<forall>i b. i \<notin> {''default'', ''main'', ''primary''} \<longrightarrow>
          fst (WebDAVStorage_getAllWorkspaces dav
                 (w\<lparr>resources := AList.update (workspace_url dav i) b (resources w)\<rparr>)) = Inr wss"
  proof (intro allI impI)
    fix i b
    assume "i \<notin> {''default'', ''main'', ''primary''}"
    then have "\<forall>j \<in> set commonWorkspaceIds. workspace_url dav i \<noteq> workspace_url dav j"
      by (auto simp: commonWorkspaceIds_def dest: workspace_url_inj)
    from WebDAVStorage_getAllWorkspaces_other_resource [OF this, where w = w and b = b] assms
    show "fst (WebDAVStorage_getAllWorkspaces dav
                 (w\<lparr>resources := AList.update (workspace_url dav i) b (resources w)\<rparr>)) = Inr wss"
      by simp
  qed
  have ids: "(\<forall>i \<in> {''default'', ''main'', ''primary''}. \<forall>x.
            served_workspace dav w i = Some x \<longrightarrow> get_prop x ''id'' = Inr (JStr i))
         \<longrightarrow> (\<forall>x \<in> set wss. \<exists>i \<in> {''default'', ''main'', ''primary''}.
                get_prop x ''id'' = Inr (JStr i))"
  proof (intro impI ballI)
    fix x
    assume carried: "\<forall>i \<in> {''default'', ''main'', ''primary''}. \<forall>x.
            served_workspace dav w i = Some x \<longrightarrow> get_prop x ''id'' = Inr (JStr i)"
      and "x \<in> set wss"
    with mem obtain i where i: "i \<in> {''default'', ''main'', ''primary''}"
      and "served_workspace dav w i = Some x"
      by auto
    with carried have "get_prop x ''id'' = Inr (JStr i)" by auto
    with i show "\<exists>i \<in> {''default'', ''main'', ''primary''}. get_prop x ''id'' = Inr (JStr i)" ..
  qed
  from same wss mem other ids show ?thesis
    by (intro conjI)
qed

text \<open>
  The witness: the server holds the workspace \<open>default\<close> at its URL and nothing at the
  other two. It is listed, its id is that of its URL, and storing a workspace under the
  id \<open>projects\<close> leaves the listing as it was.
\<close>

theorem webdav_lists_common_urls_witness:
  "WebDAVStorage_getAllWorkspaces dav_config dav_world
     = (Inr [json_image (js_of_workspace workspace0)], dav_world)
   \<and> [json_image (js_of_workspace workspace0)]
     = List.map_filter (served_workspace dav_config dav_world) [''default'', ''main'', ''primary'']
   \<and> served_workspace dav_config dav_world ''default'' = Some (json_image (js_of_workspace workspace0))
   \<and> served_workspace dav_config dav_world ''main'' = None
   \<and> served_workspace dav_config dav_world ''primary'' = None
   \<and> get_prop (json_image (js_of_workspace workspace0)) ''id'' = Inr (JStr ''default'')
   \<and> ''projects'' \<notin> {''default'', ''main'', ''primary''}
   \<and> fst (WebDAVStorage_getAllWorkspaces dav_config
          (dav_world\<lparr>resources := AList.update (workspace_url dav_config ''projects'')
             (JsonText (the (JSON_stringify (js_of_workspace workspace1)))) (resources dav_world)\<rparr>))
     = Inr [json_image (js_of_workspace workspace0)]"
proof -
  let ?ws = "json_image (js_of_workspace workspace0)"
  have listed: "WebDAVStorage_getAllWorkspaces dav_config dav_world = (Inr [?ws], dav_world)"
    by (simp add: webdav_defs action_defs dav_config_def dav_world_def world0_def workspace0_def
        page0_def json_image_def)
  have s1: "served_workspace dav_config dav_world ''default'' = Some ?ws"
    by (simp add: served_workspace_def body_value_def workspace_url_def strip_slash_def
        dav_config_def dav_world_def world0_def workspace0_def page0_def json_image_def)
  have s2: "served_workspace dav_config dav_world ''main'' = None"
    by (simp add: served_workspace_def body_value_def workspace_url_def strip_slash_def
        dav_config_def dav_world_def world0_def)
  have s3: "served_workspace dav_config dav_world ''primary'' = None"
    by (simp add: served_workspace_def body_value_def workspace_url_def strip_slash_def
        dav_config_def dav_world_def world0_def)
  have other: "''projects'' \<notin> {''default'', ''main'', ''primary''}"
    by simp
  note inst = webdav_lists_common_urls [OF listed]
  from inst
  have served: "[?ws]
     = List.map_filter (served_workspace dav_config dav_world) [''default'', ''main'', ''primary'']"
    by (rule conjunct2 [THEN conjunct1])
  note unread = inst [THEN conjunct2, THEN conjunct2, THEN conjunct2, THEN conjunct1,
      rule_format, OF other]
  from s1 s2 s3
  have "\<forall>i \<in> {''default'', ''main'', ''primary''}. \<forall>x.
            served_workspace dav_config dav_world i = Some x \<longrightarrow> get_prop x ''id'' = Inr (JStr i)"
    by (simp add: workspace0_def page0_def json_image_def)
  with inst [THEN conjunct2, THEN conjunct2, THEN conjunct2, THEN conjunct2]
  have "\<forall>x \<in> set [?ws]. \<exists>i \<in> {''default'', ''main'', ''primary''}. get_prop x ''id'' = Inr (JStr i)"
    by (rule mp)
  then have carried: "get_prop ?ws ''id'' = Inr (JStr ''default'')"
    by (simp add: workspace0_def page0_def json_image_def)
  from listed served s1 s2 s3 carried other unread show ?thesis
    by (intro conjI)
qed

text \<open>
  Claim C4 fails where it speaks of the id of a workspace and of a \<open>GET\<close> that succeeds.
  A server on which the document at \<open>/workspace-default.json\<close> is the workspace \<open>projects\<close>
  has it listed, under the id \<open>projects\<close>; and a server on which that document is \<open>null\<close>
  answers the \<open>GET\<close> with status 200, and nothing is listed.
\<close>

theorem webdav_lists_foreign_id:
  "WebDAVStorage_getAllWorkspaces dav_config dav_world_foreign
     = (Inr [json_image (js_of_workspace workspace1)], dav_world_foreign)
   \<and> get_prop (json_image (js_of_workspace workspace1)) ''id'' = Inr (JStr ''projects'')
   \<and> ''projects'' \<notin> {''default'', ''main'', ''primary''}
   \<and> fetch ''GET'' (workspace_url dav_config ''default'') None dav_world_null
     = (Response 200 False (JsonText TNull), dav_world_null)
   \<and> WebDAVStorage_getAllWorkspaces dav_config dav_world_null = (Inr [], dav_world_null)"
  by (simp add: webdav_defs action_defs workspace_url_def dav_config_def dav_world_foreign_def
      dav_world_null_def world0_def workspace1_def json_image_def)

text \<open>
  A document that is a single string, on a server that labels its resources JSON, is read
  a second time: the characters \<open>123\<close> give the number, and the listing returns it.
\<close>

lemma string_document_is_read_again:
  "WebDAVStorage_getAllWorkspaces dav_config (dav_world_string ''123'')
     = (Inr [JNum 123], dav_world_string ''123'')
   \<and> served_workspace dav_config (dav_world_string ''123'') ''default'' = Some (JNum 123)
   \<and> fst (WebDAVStorage_getAllWorkspaces dav_config (dav_world_string ''abc''))
     = Inl SyntaxError"
  by code_simp

subsection \<open>Saving a page and reading it back\<close>

lemma get_prop_page_id [simp]: "get_prop (js_of_page p) ''id'' = Inr (JStr (page_id p))"
  by (cases p) simp

lemma js_of_page_stringify: "\<exists>j. JSON_stringify (js_of_page p) = Some j"
  by (cases p) simp

lemma js_of_page_defined [simp]: "js_of_page p \<noteq> JUndefined"
  by (cases p) simp

lemma BrowserStorage_savePage_getPage:
  assumes "BrowserStorage_savePage (js_of_page p) w = (Inr (), w1)"
  shows "BrowserStorage_getPage (page_id p) w1 = (Inr (js_of_page p), w1)"
proof -
  from assms have "\<not> lf_broken w"
    and "w1 = w\<lparr>lf_items := AList.update (''page_'' @ page_id p) (js_of_page p) (lf_items w)\<rparr>"
    by (auto simp: BrowserStorage_savePage_def action_defs lf_setItem_def
        split: if_splits jsval.splits)
  then show ?thesis
    by (simp add: BrowserStorage_getPage_def try_catch_def lf_getItem_def update_conv')
qed

lemma LocalStorage_savePage_written:
  assumes "LocalStorage_savePage page s = (Inr (), s1)" and "get_prop page ''id'' = Inr i"
  shows "\<exists>text. stringify_text page = Inr text \<and> directoryHandle (fst s1)
           \<and> valid_file_name (''page-'' @ to_string i @ ''.json'')
           \<and> map_of (dir_entries (snd s1)) (''page-'' @ to_string i @ ''.json'') = Some (File text)"
proof -
  let ?n = "''page-'' @ to_string i @ ''.json''"
  from assms obtain s0 where ensure: "ensureDirectoryHandle s = (Inr (), s0)"
    and rest: "try_catch
         (andThen (on_world (getFileHandle ?n True)) (\<lambda>_.
          andThen (lift (stringify_text page)) (\<lambda>text. on_world (write_file ?n text))))
         (\<lambda>error. throw (new_Error (''Failed to save page: '' @ message error))) s0 = (Inr (), s1)"
    by (auto simp: LocalStorage_savePage_def andThen_def lift_def split: prod.splits sum.splits)
  from ensure have handle: "directoryHandle (fst s0)"
    by (auto simp: ensureDirectoryHandle_def andThen_def on_world_def
        split: if_splits prod.splits sum.splits)
  from rest obtain w2 doc where
    opened: "getFileHandle ?n True (snd s0) = (Inr (), w2)"
    and doc: "stringify_text page = Inr doc"
    and written: "write_file ?n doc w2 = (Inr (), snd s1)"
    and same: "fst s1 = fst s0"
    by (auto simp: try_catch_def andThen_def on_world_def lift_def throw_def
        split: prod.splits sum.splits)
  from opened have "valid_file_name ?n"
    by (auto simp: getFileHandle_def split: if_splits)
  moreover from written
  have "snd s1 = w2\<lparr>dir_entries := AList.update ?n (File doc) (dir_entries w2)\<rparr>"
    by (auto simp: write_file_def split: if_splits)
  then have "map_of (dir_entries (snd s1)) ?n = Some (File doc)"
    by (simp add: update_conv')
  ultimately show ?thesis using doc handle same by simp
qed

lemma LocalStorage_getPage_written:
  assumes "directoryHandle (fst s)" and "valid_file_name (''page-'' @ pageId @ ''.json'')"
    and "map_of (dir_entries (snd s)) (''page-'' @ pageId @ ''.json'') = Some (File (JsonText j))"
  shows "LocalStorage_getPage pageId s = (Inr (parse_json j), s)"
  using assms
  by (cases s)
     (simp add: LocalStorage_getPage_def ensureDirectoryHandle_def andThen_def try_catch_def
       on_world_def lift_def getFileHandle_def read_file_def)

lemma LocalStorage_savePage_getPage:
  assumes "LocalStorage_savePage (js_of_page p) s = (Inr (), s1)"
  shows "LocalStorage_getPage (page_id p) s1 = (Inr (json_image (js_of_page p)), s1)"
proof -
  from js_of_page_stringify obtain j where j: "JSON_stringify (js_of_page p) = Some j" ..
  from LocalStorage_savePage_written [OF assms get_prop_page_id] j
  have "directoryHandle (fst s1)" and "valid_file_name (''page-'' @ page_id p @ ''.json'')"
    and "map_of (dir_entries (snd s1)) (''page-'' @ page_id p @ ''.json'') = Some (File (JsonText j))"
    by (auto simp: stringify_text_def)
  from LocalStorage_getPage_written [OF this] j show ?thesis
    by (simp add: json_image_def)
qed

lemma json_image_page_differs: "json_image (js_of_page p) \<noteq> js_of_page p"
  by (cases p) (simp add: json_image_def)

lemma json_image_synced_page_differs:
  "json_image (JObj (AList.update ''lastSync'' v (spread (js_of_page p)))) \<noteq> js_of_page p"
  by (cases p) (simp add: json_image_def)

lemma find_workspace_mem:
  "find_workspace wss page = Inr v \<Longrightarrow> truthy v \<Longrightarrow> v \<in> set wss"
  by (induction wss) (auto split: sum.splits jsval.splits if_splits)

lemma makeRequest_MKCOL_world:
  "makeRequest dav path ''MKCOL'' c w = (r, w') \<Longrightarrow> w' = w"
  using makeRequest_world [of dav path "''MKCOL''" c w] by (simp add: fetch_def)

lemma makeRequest_PUT_ok:
  assumes "makeRequest dav path ''PUT'' (Some b) w = (Inr r, w1)" and "ok r"
  shows "online w \<and> w1 = w\<lparr>resources := AList.update (strip_slash (url dav) @ path) b (resources w)\<rparr>"
  using assms
  by (auto simp: makeRequest_def fetch_def is_ok_def split: if_splits body.splits)

lemma page_url_not_workspace_url: "page_url dav x pageId \<noteq> workspace_url dav i"
  by (simp add: page_url_def page_path_def workspace_url_def)

lemma WebDAVStorage_savePage_stored:
  assumes "WebDAVStorage_getAllWorkspaces dav w = (Inr wss, w')"
    and "find_workspace wss page = Inr owner"
    and "WebDAVStorage_savePage dav page w = (Inr (), w1)"
    and "get_prop page ''id'' = Inr (JStr pageId)"
  shows "truthy owner \<and> online w
    \<and> (\<exists>j. JSON_stringify (JObj (AList.update ''lastSync'' (JStr (clock w)) (spread page))) = Some j
          \<and> w1 = w\<lparr>resources := AList.update (page_url dav owner pageId) (JsonText j) (resources w)\<rparr>)"
proof -
  from assms(1) have w': "w' = w" by (rule WebDAVStorage_getAllWorkspaces_world)
  have owner: "truthy owner"
  proof (rule ccontr)
    assume "\<not> truthy owner"
    with assms w' show False
      by (simp add: WebDAVStorage_savePage_def andThen_def lift_def throw_def)
  qed
  then obtain wid where wid: "get_prop owner ''id'' = Inr wid"
    using truthy_get_prop by blast
  obtain r0 where mkcol: "makeRequest dav (''/pages/workspace-'' @ to_string wid @ ''/'') ''MKCOL'' None w = (Inr r0, w)"
    using makeRequest_never_throws makeRequest_MKCOL_world by metis
  obtain j where j: "JSON_stringify (JObj (AList.update ''lastSync'' (JStr (clock w)) (spread page))) = Some j"
    by simp
  obtain r w2 where put: "makeRequest dav (page_path wid pageId) ''PUT'' (Some (JsonText j)) w = (Inr r, w2)"
    using makeRequest_never_throws by blast
  from assms w' owner wid mkcol j put have "ok r \<and> w1 = w2"
    by (auto simp: WebDAVStorage_savePage_def andThen_def lift_def throw_def ret_def
        stringify_text_def split: if_splits)
  with makeRequest_PUT_ok [OF put] wid j owner show ?thesis
    by (auto simp: page_url_def)
qed

lemma probe_pages_saved:
  assumes "\<forall>x \<in> set wss. truthy x"
    and "\<forall>x \<in> set wss. page_url dav x pageId = u \<or> page_url dav x pageId \<notin> fst ` set (resources w)"
    and "\<exists>x \<in> set wss. page_url dav x pageId = u"
    and "online w" and "(''GET'', u) \<notin> set (refused w)"
    and "\<forall>s. parse_json j \<noteq> JStr s"
  shows "probe_pages dav pageId wss (w\<lparr>resources := AList.update u (JsonText j) (resources w)\<rparr>)
           = (Inr (parse_json j), w\<lparr>resources := AList.update u (JsonText j) (resources w)\<rparr>)"
  using assms(1-3)
proof (induction wss)
  case Nil
  then show ?case by simp
next
  case (Cons x wss)
  let ?w1 = "w\<lparr>resources := AList.update u (JsonText j) (resources w)\<rparr>"
  from Cons.prems(1) obtain wid where wid: "get_prop x ''id'' = Inr wid"
    using truthy_get_prop [of x "''id''"] by auto
  then have ux: "page_url dav x pageId = strip_slash (url dav) @ page_path wid pageId"
    by (simp add: page_url_def)
  show ?case
  proof (cases "page_url dav x pageId = u")
    case True
    with ux assms(4-6) have "\<exists>r. makeRequest dav (page_path wid pageId) ''GET'' None ?w1 = (Inr r, ?w1)
        \<and> ok r \<and> parse_data (data r) = Inr (parse_json j)"
      by (auto simp: makeRequest_def fetch_def is_ok_def update_conv' parse_data_def
          split: jsval.splits)
    with wid show ?thesis
      by (auto simp: andThen_def lift_def)
  next
    case False
    with Cons.prems(2) have absent: "page_url dav x pageId \<notin> fst ` set (resources w)" by simp
    then have "map_of (resources w) (page_url dav x pageId) = None"
      by (simp add: map_of_eq_None_iff)
    with False ux have "\<exists>r. makeRequest dav (page_path wid pageId) ''GET'' None ?w1 = (Inr r, ?w1)
        \<and> \<not> ok r"
      by (auto simp: makeRequest_def fetch_def is_ok_def update_conv' split: body.splits)
    moreover from False Cons.prems have "\<exists>x \<in> set wss. page_url dav x pageId = u" by auto
    moreover note Cons.IH Cons.prems(1,2) wid
    ultimately show ?thesis
      by (auto simp: andThen_def lift_def)
  qed
qed

lemma WebDAVStorage_savePage_getPage:
  assumes "WebDAVStorage_getAllWorkspaces dav w = (Inr wss, w')"
    and "find_workspace wss (js_of_page p) = Inr owner"
    and "WebDAVStorage_savePage dav (js_of_page p) w = (Inr (), w1)"
    and "(''GET'', page_url dav owner (page_id p)) \<notin> set (refused w)"
    and "\<forall>x \<in> set wss. page_url dav x (page_id p) = page_url dav owner (page_id p)
           \<or> page_url dav x (page_id p) \<notin> fst ` set (resources w)"
  shows "WebDAVStorage_getPage dav (page_id p) w1
    = (Inr (json_image (JObj (AList.update ''lastSync'' (JStr (clock w)) (spread (js_of_page p))))), w1)"
proof -
  let ?u = "page_url dav owner (page_id p)"
  let ?v = "JObj (AList.update ''lastSync'' (JStr (clock w)) (spread (js_of_page p)))"
  from assms(1) have w': "w' = w" by (rule WebDAVStorage_getAllWorkspaces_world)
  from WebDAVStorage_savePage_stored [OF assms(1-3) get_prop_page_id]
  obtain j where owner: "truthy owner" and online: "online w"
    and j: "JSON_stringify ?v = Some j"
    and w1: "w1 = w\<lparr>resources := AList.update ?u (JsonText j) (resources w)\<rparr>"
    by blast
  from j have obj: "\<forall>s. parse_json j \<noteq> JStr s" by auto
  from assms(1) have truthy: "\<forall>x \<in> set wss. truthy x"
    by (rule WebDAVStorage_getAllWorkspaces_truthy)
  from find_workspace_mem [OF assms(2) owner]
  have mem: "\<exists>x \<in> set wss. page_url dav x (page_id p) = ?u" by blast
  have "\<forall>i \<in> set commonWorkspaceIds. ?u \<noteq> workspace_url dav i"
    by (simp add: page_url_not_workspace_url)
  from WebDAVStorage_getAllWorkspaces_other_resource [OF this, where w = w and b = "JsonText j"]
    assms(1) w1
  have "fst (WebDAVStorage_getAllWorkspaces dav w1) = Inr wss" by simp
  moreover have "snd (WebDAVStorage_getAllWorkspaces dav w1) = w1"
    using WebDAVStorage_getAllWorkspaces_world by (metis prod.collapse)
  ultimately have listing: "WebDAVStorage_getAllWorkspaces dav w1 = (Inr wss, w1)"
    by (metis prod.collapse)
  from probe_pages_saved [OF truthy assms(5) mem online assms(4) obj] w1
  have "probe_pages dav (page_id p) wss w1 = (Inr (parse_json j), w1)" by simp
  with listing j show ?thesis
    by (simp add: WebDAVStorage_getPage_def andThen_def json_image_def)
qed

lemma WebDAVStorage_savePage_unowned:
  assumes "WebDAVStorage_getAllWorkspaces dav w = (Inr wss, w')"
    and "find_workspace wss (js_of_page p) = Inr JUndefined"
  shows "WebDAVStorage_savePage dav (js_of_page p) w
           = (Inl (new_Error (''Workspace not found for page '' @ page_id p)), w)"
proof -
  from assms(1) have "w' = w" by (rule WebDAVStorage_getAllWorkspaces_world)
  with assms show ?thesis
    by (simp add: WebDAVStorage_savePage_def andThen_def lift_def throw_def)
qed

text \<open>
  Claim C1, as the code has it. For every \<open>Page\<close> \<open>p\<close>: on \<open>BrowserStorage\<close>,
  \<open>savePage(p)\<close> followed by \<open>getPage(p.id)\<close> returns \<open>p\<close>. On \<open>LocalStorage\<close> it returns
  what \<open>JSON.parse\<close> reads from the file that \<open>JSON.stringify(p)\<close> wrote: \<open>p\<close> with its
  dates as ISO strings, which is never \<open>p\<close>. On \<open>WebDAVStorage\<close>, \<open>savePage(p)\<close> throws
  \<open>Workspace not found for page <id>\<close> unless one of the workspaces that the provider lists
  has a page with this id; when it returns, and no other listed workspace holds a resource
  for the page, \<open>getPage(p.id)\<close> returns the JSON reading of \<open>p\<close> extended with a
  \<open>lastSync\<close> property, which is never \<open>p\<close> either.
\<close>

theorem savePage_then_getPage:
  "(BrowserStorage_savePage (js_of_page p) wb = (Inr (), wb')
      \<longrightarrow> BrowserStorage_getPage (page_id p) wb' = (Inr (js_of_page p), wb'))
   \<and> (LocalStorage_savePage (js_of_page p) sl = (Inr (), sl')
      \<longrightarrow> LocalStorage_getPage (page_id p) sl' = (Inr (json_image (js_of_page p)), sl'))
   \<and> json_image (js_of_page p) \<noteq> js_of_page p
   \<and> (WebDAVStorage_getAllWorkspaces dav w = (Inr wss, w')
        \<and> find_workspace wss (js_of_page p) = Inr JUndefined
      \<longrightarrow> WebDAVStorage_savePage dav (js_of_page p) w
            = (Inl (new_Error (''Workspace not found for page '' @ page_id p)), w))
   \<and> (WebDAVStorage_getAllWorkspaces dav w = (Inr wss, w')
        \<and> find_workspace wss (js_of_page p) = Inr owner
        \<and> WebDAVStorage_savePage dav (js_of_page p) w = (Inr (), w'')
        \<and> (''GET'', page_url dav owner (page_id p)) \<notin> set (refused w)
        \<and> (\<forall>x \<in> set wss. page_url dav x (page_id p) = page_url dav owner (page_id p)
               \<or> page_url dav x (page_id p) \<notin> fst ` set (resources w))
      \<longrightarrow> WebDAVStorage_getPage dav (page_id p) w''
            = (Inr (json_image (JObj (AList.update ''lastSync'' (JStr (clock w)) (spread (js_of_page p))))),
               w''))
   \<and> json_image (JObj (AList.update ''lastSync'' (JStr (clock w)) (spread (js_of_page p))))
        \<noteq> js_of_page p"
proof (intro conjI impI)
  assume "BrowserStorage_savePage (js_of_page p) wb = (Inr (), wb')"
  then show "BrowserStorage_getPage (page_id p) wb' = (Inr (js_of_page p), wb')"
    by (rule BrowserStorage_savePage_getPage)
next
  assume "LocalStorage_savePage (js_of_page p) sl = (Inr (), sl')"
  then show "LocalStorage_getPage (page_id p) sl' = (Inr (json_image (js_of_page p)), sl')"
    by (rule LocalStorage_savePage_getPage)
next
  show "json_image (js_of_page p) \<noteq> js_of_page p"
    by (rule json_image_page_differs)
next
  assume "WebDAVStorage_getAllWorkspaces dav w = (Inr wss, w')
        \<and> find_workspace wss (js_of_page p) = Inr JUndefined"
  then show "WebDAVStorage_savePage dav (js_of_page p) w
            = (Inl (new_Error (''Workspace not found for page '' @ page_id p)), w)"
    by (elim conjE) (rule WebDAVStorage_savePage_unowned)
next
  assume "WebDAVStorage_getAllWorkspaces dav w = (Inr wss, w')
        \<and> find_workspace wss (js_of_page p) = Inr owner
        \<and> WebDAVStorage_savePage dav (js_of_page p) w = (Inr (), w'')
        \<and> (''GET'', page_url dav owner (page_id p)) \<notin> set (refused w)
        \<and> (\<forall>x \<in> set wss. page_url dav x (page_id p) = page_url dav owner (page_id p)
               \<or> page_url dav x (page_id p) \<notin> fst ` set (resources w))"
  then show "WebDAVStorage_getPage dav (page_id p) w''
            = (Inr (json_image (JObj (AList.update ''lastSync'' (JStr (clock w)) (spread (js_of_page p))))),
               w'')"
    by (elim conjE) (rule WebDAVStorage_savePage_getPage)
next
  show "json_image (JObj (AList.update ''lastSync'' (JStr (clock w)) (spread (js_of_page p))))
        \<noteq> js_of_page p"
    by (rule json_image_synced_page_differs)
qed

lemma pair_of_fst: "fst x = a \<Longrightarrow> x = (a, snd x)"
  by (cases x) simp

text \<open>
  The witness: the sample page is saved to the empty browser store, to the empty
  directory, to a server without workspaces (which refuses it) and to a server whose
  workspace \<open>default\<close> lists the page.
\<close>

theorem savePage_then_getPage_witness:
  "fst (BrowserStorage_savePage (js_of_page page0) world0) = Inr ()
   \<and> fst (BrowserStorage_getPage (page_id page0) (snd (BrowserStorage_savePage (js_of_page page0) world0)))
       = Inr (js_of_page page0)
   \<and> fst (LocalStorage_savePage (js_of_page page0) (new_LocalStorage ''/tmp/notes'', world0)) = Inr ()
   \<and> fst (LocalStorage_getPage (page_id page0)
            (snd (LocalStorage_savePage (js_of_page page0) (new_LocalStorage ''/tmp/notes'', world0))))
       = Inr (json_image (js_of_page page0))
   \<and> WebDAVStorage_getAllWorkspaces dav_config world0 = (Inr [], world0)
   \<and> find_workspace [] (js_of_page page0) = Inr JUndefined
   \<and> WebDAVStorage_savePage dav_config (js_of_page page0) world0
       = (Inl (new_Error (''Workspace not found for page '' @ page_id page0)), world0)
   \<and> WebDAVStorage_getAllWorkspaces dav_config dav_world
       = (Inr [json_image (js_of_workspace workspace0)], dav_world)
   \<and> find_workspace [json_image (js_of_workspace workspace0)] (js_of_page page0)
       = Inr (json_image (js_of_workspace workspace0))
   \<and> fst (WebDAVStorage_savePage dav_config (js_of_page page0) dav_world) = Inr ()
   \<and> (''GET'', page_url dav_config (json_image (js_of_workspace workspace0)) (page_id page0))
       \<notin> set (refused dav_world)
   \<and> page_url dav_config (json_image (js_of_workspace workspace0)) (page_id page0)
       \<notin> fst ` set (resources dav_world)
   \<and> fst (WebDAVStorage_getPage dav_config (page_id page0)
            (snd (WebDAVStorage_savePage dav_config (js_of_page page0) dav_world)))
       = Inr (json_image (JObj (AList.update ''lastSync'' (JStr (clock dav_world))
                (spread (js_of_page page0)))))"
proof -
  let ?p = "js_of_page page0"
  let ?ws = "json_image (js_of_workspace workspace0)"
  let ?l = "new_LocalStorage ''/tmp/notes''"
  have b: "fst (BrowserStorage_savePage ?p world0) = Inr ()"
    by (simp add: browser_defs action_defs lf_defs world0_def page0_def)
  have l: "fst (LocalStorage_savePage ?p (?l, world0)) = Inr ()"
    by (simp add: local_defs fs_defs action_defs new_LocalStorage_def world0_def page0_def)
  have d0: "WebDAVStorage_getAllWorkspaces dav_config world0 = (Inr [], world0)"
    by (simp add: webdav_defs action_defs dav_config_def world0_def)
  have f0: "find_workspace [] ?p = Inr JUndefined"
    by simp
  have d1: "WebDAVStorage_getAllWorkspaces dav_config dav_world = (Inr [?ws], dav_world)"
    by (simp add: webdav_defs action_defs dav_config_def dav_world_def world0_def workspace0_def
        page0_def json_image_def)
  have f1: "find_workspace [?ws] ?p = Inr ?ws"
    by (simp add: workspace0_def page0_def json_image_def)
  have s1: "fst (WebDAVStorage_savePage dav_config ?p dav_world) = Inr ()"
    by (simp add: webdav_defs action_defs dav_config_def dav_world_def world0_def workspace0_def
        page0_def)
  have g1: "(''GET'', page_url dav_config ?ws (page_id page0)) \<notin> set (refused dav_world)"
    by (simp add: dav_world_def world0_def)
  have a1: "page_url dav_config ?ws (page_id page0) \<notin> fst ` set (resources dav_world)"
    by (simp add: page_url_def page_path_def strip_slash_def dav_config_def dav_world_def
        world0_def workspace0_def page0_def json_image_def)
  then have a2: "\<forall>x \<in> set [?ws]. page_url dav_config x (page_id page0) = page_url dav_config ?ws (page_id page0)
      \<or> page_url dav_config x (page_id page0) \<notin> fst ` set (resources dav_world)"
    by simp
  note unowned = savePage_then_getPage [where p = page0 and wb = world0
      and wb' = "snd (BrowserStorage_savePage ?p world0)" and sl = "(?l, world0)"
      and sl' = "snd (LocalStorage_savePage ?p (?l, world0))" and dav = dav_config
      and w = world0 and wss = "[]" and w' = world0]
  note owned = savePage_then_getPage [where p = page0 and dav = dav_config and w = dav_world
      and wss = "[?ws]" and w' = dav_world and owner = ?ws
      and w'' = "snd (WebDAVStorage_savePage dav_config ?p dav_world)"]
  from unowned pair_of_fst [OF b]
  have c1: "fst (BrowserStorage_getPage (page_id page0) (snd (BrowserStorage_savePage ?p world0)))
       = Inr ?p"
    by simp
  from unowned pair_of_fst [OF l]
  have c2: "fst (LocalStorage_getPage (page_id page0) (snd (LocalStorage_savePage ?p (?l, world0))))
       = Inr (json_image ?p)"
    by simp
  from unowned d0 f0
  have c3: "WebDAVStorage_savePage dav_config ?p world0
       = (Inl (new_Error (''Workspace not found for page '' @ page_id page0)), world0)"
    by simp
  from owned d1 f1 pair_of_fst [OF s1] g1 a2
  have c4: "fst (WebDAVStorage_getPage dav_config (page_id page0)
            (snd (WebDAVStorage_savePage dav_config ?p dav_world)))
       = Inr (json_image (JObj (AList.update ''lastSync'' (JStr (clock dav_world)) (spread ?p))))"
    by simp
  from b c1 l c2 d0 f0 c3 d1 f1 s1 g1 a1 c4 show ?thesis
    by (intro conjI)
qed

text \<open>
  Claim C1 fails on \<open>LocalStorage\<close> and on \<open>WebDAVStorage\<close>: the page read back from the
  directory has strings where the page saved has dates, and a server that lists no
  workspace with the page refuses to save it.
\<close>

theorem savePage_getPage_changes_page:
  "fst (LocalStorage_savePage (js_of_page page0) (new_LocalStorage ''/tmp/notes'', world0)) = Inr ()
   \<and> fst (LocalStorage_getPage ''p1''
            (snd (LocalStorage_savePage (js_of_page page0) (new_LocalStorage ''/tmp/notes'', world0))))
       = Inr (JObj [(''id'', JStr ''p1''), (''title'', JStr ''Notes''),
                    (''content'', JStr ''<p>hello</p>''), (''isFolder'', JBool False),
                    (''createdAt'', JStr ''2024-04-30T08:00:00.000Z''),
                    (''updatedAt'', JStr ''2024-04-30T09:30:00.000Z'')])
   \<and> js_of_page page0
       = JObj [(''id'', JStr ''p1''), (''title'', JStr ''Notes''),
               (''content'', JStr ''<p>hello</p>''), (''isFolder'', JBool False),
               (''createdAt'', JDate ''2024-04-30T08:00:00.000Z''),
               (''updatedAt'', JDate ''2024-04-30T09:30:00.000Z'')]
   \<and> WebDAVStorage_savePage dav_config (js_of_page page0) world0
       = (Inl (new_Error ''Workspace not found for page p1''), world0)"
  by (simp add: local_defs fs_defs webdav_defs action_defs new_LocalStorage_def world0_def
      page0_def dav_config_def update_conv')

subsection \<open>Migration between providers of different kinds\<close>


lemma parse_json_defined [simp]: "parse_json j \<noteq> JUndefined"
  by (cases j) simp_all

lemma json_born_parse [simp]: "json_born (parse_json j)"
  by (auto simp: json_born_def)




lemma filter_update_key:
  "P k \<Longrightarrow> filter (\<lambda>e. P (fst e)) (AList.update k v al) = AList.update k v (filter (\<lambda>e. P (fst e)) al)"
  by (induction al) auto

lemma filter_update_other:
  "\<not> P k \<Longrightarrow> filter (\<lambda>e. P (fst e)) (AList.update k v al) = filter (\<lambda>e. P (fst e)) al"
  by (induction al) auto

lemma workspace_key_prefix [simp]: "startsWith (workspace_key x) ''workspace_''"
  by (simp add: workspace_key_def startsWith_def)



lemma json_born_null [simp]: "json_born JNull"
  unfolding json_born_def by (rule exI [of _ TNull]) simp






lemma is_workspace_key_filter_update:
  "startsWith k ''workspace_'' \<Longrightarrow>
     filter is_workspace_key (AList.update k v al) = AList.update k v (filter is_workspace_key al)"
  unfolding is_workspace_key_def by (induction al) auto















end
